theory Spec2Isabelle
  imports Complex_Main
begin

chapter \<open>A REST gateway over a SQL storage engine\<close>

text \<open>
  The four handlers of the gateway (\<open>handleGet\<close>, \<open>handlePost\<close>, \<open>handleUpdate\<close>,
  \<open>handleDelete\<close>), the identifier sanitizer and the hydration helpers, as functions of
  their explicit inputs: the table name and the row id taken from the path, the decoded
  query string, the request body, and the two things a handler reaches through its
  context, the platform's JSON functions and the storage engine. A handler returns the
  response it would send. The statement texts are built character by character as the
  handlers build them.
\<close>

section \<open>JavaScript values\<close>

text \<open>
  The handlers work on dynamically typed JavaScript values: the decoded request body, the
  parameters bound to a statement, the column values of a stored row and the response
  body. A number is either \<open>NaN\<close> or a finite value, kept as an exact rational (rounding,
  infinities and the sign of zero are outside the model; \<open>-0 === 0\<close> holds in JavaScript
  as it does here). A string is a list of code units. \<open>Function\<close> stands for a function object,
  which only arises from a property inherited from \<open>Object.prototype\<close>.
\<close>

datatype number = NaN | Fin rat

datatype jsval =
    Undefined
  | Null
  | Bool bool
  | Num number
  | Str string
  | Arr "jsval list"
  | Obj "(string \<times> jsval) list"
  | Function string

datatype jstype = TUndefined | TObject | TBoolean | TNumber | TString | TFunction

text \<open>The \<open>typeof\<close> operator; \<open>typeof null\<close> is \<open>"object"\<close>.\<close>

fun typeof :: "jsval \<Rightarrow> jstype" where
  "typeof Undefined = TUndefined"
| "typeof Null = TObject"
| "typeof (Bool b) = TBoolean"
| "typeof (Num n) = TNumber"
| "typeof (Str s) = TString"
| "typeof (Arr xs) = TObject"
| "typeof (Obj kvs) = TObject"
| "typeof (Function f) = TFunction"

text \<open>ToBoolean, as applied by \<open>!\<close>, \<open>||\<close> and \<open>if\<close>.\<close>

fun truthy :: "jsval \<Rightarrow> bool" where
  "truthy Undefined = False"
| "truthy Null = False"
| "truthy (Bool b) = b"
| "truthy (Num NaN) = False"
| "truthy (Num (Fin r)) = (r \<noteq> 0)"
| "truthy (Str s) = (s \<noteq> [])"
| "truthy (Arr xs) = True"
| "truthy (Obj kvs) = True"
| "truthy (Function f) = True"

fun isArray :: "jsval \<Rightarrow> bool" where
  "isArray (Arr xs) = True"
| "isArray v = False"

text \<open>\<open>Object.keys(data)\<close>: the own enumerable keys, in enumeration order.\<close>

fun object_keys :: "jsval \<Rightarrow> string list" where
  "object_keys (Obj kvs) = map fst kvs"
| "object_keys v = []"

text \<open>
  The function-valued properties every plain object inherits from \<open>Object.prototype\<close>.
\<close>

definition prototype_methods :: "string list" where
  "prototype_methods =
     [''constructor'', ''hasOwnProperty'', ''isPrototypeOf'', ''propertyIsEnumerable'',
      ''toLocaleString'', ''toString'', ''valueOf'', ''__defineGetter__'',
      ''__defineSetter__'', ''__lookupGetter__'', ''__lookupSetter__'']"

text \<open>
  \<open>data[key]\<close> on a plain object: an own property wins; otherwise the lookup goes up to
  \<open>Object.prototype\<close>, whose \<open>__proto__\<close> accessor yields the prototype itself (an object
  without enumerable properties) and whose methods are functions; any other key reads
  \<open>undefined\<close>.
\<close>

fun get_prop :: "jsval \<Rightarrow> string \<Rightarrow> jsval" where
  "get_prop (Obj kvs) k =
     (case map_of kvs k of
        Some v \<Rightarrow> v
      | None \<Rightarrow>
          if k = ''__proto__'' then Obj []
          else if k \<in> set prototype_methods then Function k
          else Undefined)"
| "get_prop v k = Undefined"

section \<open>Strings\<close>

text \<open>\<open>xs.join(sep)\<close>\<close>

fun join :: "string \<Rightarrow> string list \<Rightarrow> string" where
  "join sep [] = []"
| "join sep [x] = x"
| "join sep (x # y # ys) = x @ sep @ join sep (y # ys)"

text \<open>\<open>s.includes(sub)\<close>: \<open>sub\<close> occurs in \<open>s\<close> as a contiguous run.\<close>

fun starts_with :: "string \<Rightarrow> string \<Rightarrow> bool" where
  "starts_with s [] = True"
| "starts_with [] (c # cs) = False"
| "starts_with (d # ds) (c # cs) = (d = c \<and> starts_with ds cs)"

fun str_includes :: "string \<Rightarrow> string \<Rightarrow> bool" where
  "str_includes [] sub = (sub = [])"
| "str_includes (d # ds) sub = (starts_with (d # ds) sub \<or> str_includes ds sub)"

section \<open>Identifier sanitizer\<close>

text \<open>The character class \<open>[a-zA-Z0-9_]\<close>, by code unit.\<close>

definition is_ident_char :: "char \<Rightarrow> bool" where
  "is_ident_char c =
     (let n = (of_char c :: nat) in
        (of_char (CHR ''a'') \<le> n \<and> n \<le> of_char (CHR ''z'')) \<or>
        (of_char (CHR ''A'') \<le> n \<and> n \<le> of_char (CHR ''Z'')) \<or>
        (of_char (CHR ''0'') \<le> n \<and> n \<le> of_char (CHR ''9'')) \<or>
        c = CHR ''_'')"

text \<open>
  \<open>identifier.replace(/[^a-zA-Z0-9_]/g, "")\<close>: every code unit outside the class is
  replaced by the empty string, left to right.
\<close>

fun sanitizeIdentifier :: "string \<Rightarrow> string" where
  "sanitizeIdentifier [] = []"
| "sanitizeIdentifier (c # cs) =
     (if is_ident_char c then c # sanitizeIdentifier cs else sanitizeIdentifier cs)"

definition sanitizeKeyword :: "string \<Rightarrow> string" where
  "sanitizeKeyword identifier = ''`'' @ sanitizeIdentifier identifier @ ''`''"

section \<open>Numbers\<close>

text \<open>Arithmetic and comparison on numbers: \<open>NaN\<close> propagates and compares false.\<close>

fun num_sub :: "number \<Rightarrow> number \<Rightarrow> number" where
  "num_sub (Fin a) (Fin b) = Fin (a - b)"
| "num_sub a b = NaN"

fun num_mul :: "number \<Rightarrow> number \<Rightarrow> number" where
  "num_mul (Fin a) (Fin b) = Fin (a * b)"
| "num_mul a b = NaN"

text \<open>\<open>a / b\<close> is used with \<open>b > 0\<close> only; the infinities of a zero divisor are \<open>NaN\<close> here.\<close>

fun num_div :: "number \<Rightarrow> number \<Rightarrow> number" where
  "num_div (Fin a) (Fin b) = (if b = 0 then NaN else Fin (a / b))"
| "num_div a b = NaN"

fun num_gt :: "number \<Rightarrow> number \<Rightarrow> bool" where
  "num_gt (Fin a) (Fin b) = (a > b)"
| "num_gt a b = False"

text \<open>\<open>Math.max(a, b)\<close> is \<open>NaN\<close> as soon as one argument is.\<close>

fun math_max :: "number \<Rightarrow> number \<Rightarrow> number" where
  "math_max (Fin a) (Fin b) = Fin (max a b)"
| "math_max a b = NaN"

fun math_ceil :: "number \<Rightarrow> number" where
  "math_ceil (Fin a) = Fin (of_int \<lceil>a\<rceil>)"
| "math_ceil NaN = NaN"

text \<open>
  \<open>parseInt(s)\<close> without a radix: leading white space is skipped, then an optional sign,
  then an optional \<open>0x\<close>/\<open>0X\<close> prefix selecting radix 16, then the longest run of digits
  of the radix; no digit at all gives \<open>NaN\<close>, and whatever follows the digits is ignored.
\<close>

definition is_white_space :: "char \<Rightarrow> bool" where
  "is_white_space c = ((of_char c :: nat) \<in> {9, 10, 11, 12, 13, 32, 160})"

definition digit_value :: "char \<Rightarrow> nat" where
  "digit_value c =
     (let n = (of_char c :: nat) in
        if of_char (CHR ''0'') \<le> n \<and> n \<le> of_char (CHR ''9'') then n - of_char (CHR ''0'')
        else if of_char (CHR ''a'') \<le> n \<and> n \<le> of_char (CHR ''z'') then n - of_char (CHR ''a'') + 10
        else if of_char (CHR ''A'') \<le> n \<and> n \<le> of_char (CHR ''Z'') then n - of_char (CHR ''A'') + 10
        else 36)"

definition is_digit :: "nat \<Rightarrow> char \<Rightarrow> bool" where
  "is_digit R c = (digit_value c < R)"

definition digits_value :: "nat \<Rightarrow> string \<Rightarrow> nat" where
  "digits_value R Z = foldl (\<lambda>acc c. acc * R + digit_value c) 0 Z"

definition parseInt :: "string \<Rightarrow> number" where
  "parseInt inputString =
     (let S = dropWhile is_white_space inputString;
          sign = (if starts_with S ''-'' then - 1 else 1 :: int);
          S1 = (if starts_with S ''-'' \<or> starts_with S ''+'' then tl S else S);
          R = (if starts_with S1 ''0x'' \<or> starts_with S1 ''0X'' then 16 else 10);
          S2 = (if starts_with S1 ''0x'' \<or> starts_with S1 ''0X'' then drop 2 S1 else S1);
          Z = takeWhile (is_digit R) S2
      in if Z = [] then NaN else Fin (of_int (sign * int (digits_value R Z))))"

section \<open>Query string\<close>

text \<open>
  \<open>new URL(c.req.url).searchParams\<close>: the decoded (key, value) pairs in the order of the
  query string. \<open>get\<close> returns the first value of a key, or null (\<open>None\<close>).
\<close>

type_synonym searchParams = "(string \<times> string) list"

fun sp_get :: "searchParams \<Rightarrow> string \<Rightarrow> string option" where
  "sp_get [] name = None"
| "sp_get ((key, value) # rest) name = (if key = name then Some value else sp_get rest name)"

text \<open>\<open>x || d\<close> on a string or null: null and the empty string are falsy.\<close>

fun or_else :: "string option \<Rightarrow> string \<Rightarrow> string" where
  "or_else None d = d"
| "or_else (Some s) d = (if s = [] then d else s)"

text \<open>
  \<open>s.toUpperCase()\<close> on the letters \<open>a\<close> to \<open>z\<close>; the result is only ever compared with
  \<open>"DESC"\<close>.
\<close>

definition upper_char :: "char \<Rightarrow> char" where
  "upper_char c =
     (let n = (of_char c :: nat) in
        if of_char (CHR ''a'') \<le> n \<and> n \<le> of_char (CHR ''z'') then char_of (n - 32) else c)"

definition toUpperCase :: "string \<Rightarrow> string" where
  "toUpperCase s = map upper_char s"

section \<open>Platform and storage engine\<close>

text \<open>
  \<open>JSON.stringify\<close> and \<open>JSON.parse\<close> belong to the platform, not to the repository: the
  model takes them as parameters. \<open>parse\<close> returns \<open>None\<close> where \<open>JSON.parse\<close> throws.
\<close>

record JSON =
  stringify :: "jsval \<Rightarrow> string"
  parse :: "string \<Rightarrow> jsval option"

text \<open>
  The storage engine binding \<open>c.env.DB\<close>: a statement text and its bound parameters go
  in; \<open>all\<close> gives the rows, \<open>first\<close> the first row (typed \<open>{ total: number }\<close> where it
  is used) or null, \<open>run\<close> the \<open>meta\<close> descriptor. \<open>Inl\<close> carries the message of the
  error the engine throws.
\<close>

type_synonym row = "(string \<times> jsval) list"

record run_meta =
  changes :: nat
  last_row_id :: int

record engine =
  db_all :: "string \<Rightarrow> jsval list \<Rightarrow> string + row list"
  db_first :: "string \<Rightarrow> jsval list \<Rightarrow> string + number option"
  db_run :: "string \<Rightarrow> jsval list \<Rightarrow> string + run_meta"

text \<open>
  What a handler produces: \<open>c.json(body, status)\<close> (status 200 when omitted), or an
  exception that leaves the handler uncaught.
\<close>

datatype outcome = Response jsval nat | Uncaught string

section \<open>Read-direction hydration (helpers/index.ts)\<close>

definition hydrateValue :: "JSON \<Rightarrow> jsval \<Rightarrow> jsval" where
  "hydrateValue J value =
     (if value = Null \<or> value = Undefined then value
      else if value = Num (Fin 0) then Bool False
      else if value = Num (Fin 1) then Bool True
      else (case value of
              Str s \<Rightarrow>
                (case s of
                   [] \<Rightarrow> value
                 | firstChar # _ \<Rightarrow>
                     if firstChar = CHR ''{'' \<or> firstChar = CHR ''['' then
                       (case parse J s of Some v \<Rightarrow> v | None \<Rightarrow> value)
                     else value)
            | _ \<Rightarrow> value))"

text \<open>
  \<open>hydrateRow\<close>: a falsy row (null, \<open>None\<close> here) is returned as it is; otherwise every
  entry keeps its key and has its value hydrated.
\<close>

fun hydrateRow :: "JSON \<Rightarrow> row option \<Rightarrow> row option" where
  "hydrateRow J None = None"
| "hydrateRow J (Some r) = Some (map (\<lambda>(key, value). (key, hydrateValue J value)) r)"

fun row_value :: "row option \<Rightarrow> jsval" where
  "row_value None = Null"
| "row_value (Some r) = Obj r"

section \<open>Read (handleGet)\<close>

definition idColumn_of :: "string \<Rightarrow> string" where
  "idColumn_of tableName = (if tableName = ''quizzes'' then ''slug'' else ''id'')"

text \<open>\<open>if (id)\<close>: an absent id and the empty string are falsy. (The parameter \<open>id\<close> of the
  handlers is \<open>rowId\<close> below.)\<close>

fun id_given :: "string option \<Rightarrow> bool" where
  "id_given None = False"
| "id_given (Some s) = (s \<noteq> [])"

definition reserved_keys :: "string list" where
  "reserved_keys = [''sort_by'', ''order'', ''limit'', ''page'']"

text \<open>
  The loop over \<open>searchParams.entries()\<close>, pushing onto \<open>conditions\<close> and \<open>params\<close>; a
  reserved key is skipped by \<open>continue\<close>.
\<close>

fun filter_loop :: "searchParams \<Rightarrow> string list \<times> jsval list \<Rightarrow> string list \<times> jsval list" where
  "filter_loop [] acc = acc"
| "filter_loop ((key, value) # rest) (conditions, params) =
     (if key \<in> set reserved_keys then filter_loop rest (conditions, params)
      else filter_loop rest
             (conditions @ [sanitizeIdentifier key @ '' = ?''], params @ [Str value]))"

text \<open>The statement-building part of \<open>handleGet\<close>, up to the call of the engine.\<close>

record select_plan =
  sp_table :: string
  sp_whereClause :: string
  sp_limit :: number
  sp_page :: number
  sp_offset :: number
  sp_query :: string
  sp_params :: "jsval list"

definition build_select :: "string \<Rightarrow> string option \<Rightarrow> searchParams \<Rightarrow> select_plan" where
  "build_select tableName rowId searchParams =
     (let table = sanitizeKeyword tableName;
          idColumn = idColumn_of tableName;
          start =
            (case rowId of
               None \<Rightarrow> ([], [])
             | Some s \<Rightarrow> if s = [] then ([], []) else ([idColumn @ '' = ?''], [Str s]));
          (conditions, params) = filter_loop searchParams start;
          whereClause =
            (if length conditions > 0 then '' WHERE '' @ join '' AND '' conditions else []);
          limit = parseInt (or_else (sp_get searchParams ''limit'') ''0'');
          page = math_max (Fin 1) (parseInt (or_else (sp_get searchParams ''page'') ''1''));
          offset = num_mul (num_sub page (Fin 1)) limit;
          sortBy = or_else (sp_get searchParams ''sort_by'') idColumn;
          order =
            (if map_option toUpperCase (sp_get searchParams ''order'') = Some ''DESC''
             then ''DESC'' else ''ASC'');
          query = ''SELECT * FROM '' @ table @ whereClause @ '' ORDER BY '' @
                  sanitizeIdentifier sortBy @ '' '' @ order
      in \<lparr> sp_table = table, sp_whereClause = whereClause, sp_limit = limit, sp_page = page,
           sp_offset = offset,
           sp_query = (if num_gt limit (Fin 0) then query @ '' LIMIT ? OFFSET ?'' else query),
           sp_params = (if num_gt limit (Fin 0) then params @ [Num limit, Num offset]
                        else params) \<rparr>)"

text \<open>The count statement and its parameters; \<open>params.slice(0, -2)\<close> drops the last two.\<close>

definition countQuery_of :: "select_plan \<Rightarrow> string" where
  "countQuery_of p = ''SELECT COUNT(*) as total FROM '' @ sp_table p @ sp_whereClause p"

definition countParams_of :: "select_plan \<Rightarrow> jsval list" where
  "countParams_of p =
     (if num_gt (sp_limit p) (Fin 0) then take (length (sp_params p) - 2) (sp_params p)
      else sp_params p)"

text \<open>\<open>limit || total\<close>: zero and \<open>NaN\<close> are falsy.\<close>

definition num_or :: "number \<Rightarrow> number \<Rightarrow> number" where
  "num_or a b = (if truthy (Num a) then a else b)"

definition error_500 :: "string \<Rightarrow> outcome" where
  "error_500 message =
     Response (Obj [(''success'', Bool False), (''error'', Str message)]) 500"

text \<open>The \<open>pagination\<close> object of a collection response.\<close>

definition pagination_of :: "select_plan \<Rightarrow> number \<Rightarrow> jsval" where
  "pagination_of p totalItems =
     Obj [(''total_items'', Num totalItems),
          (''total_pages'',
             Num (if num_gt (sp_limit p) (Fin 0) then math_ceil (num_div totalItems (sp_limit p))
                  else Fin 1)),
          (''current_page'', Num (sp_page p)),
          (''limit'', Num (num_or (sp_limit p) totalItems))]"

definition handleGet ::
  "JSON \<Rightarrow> engine \<Rightarrow> string \<Rightarrow> string option \<Rightarrow> searchParams \<Rightarrow> outcome" where
  "handleGet J db tableName rowId searchParams =
     (let p = build_select tableName rowId searchParams in
      case db_all db (sp_query p) (sp_params p) of
        Inl message \<Rightarrow> error_500 message
      | Inr results \<Rightarrow>
          if id_given rowId then
            (case results of
               [] \<Rightarrow>
                 Response (Obj [(''success'', Bool False), (''error'', Str ''Not Found'')]) 404
             | r # _ \<Rightarrow>
                 Response (Obj [(''success'', Bool True),
                                (''result'', row_value (hydrateRow J (Some r)))]) 200)
          else
            (case db_first db (countQuery_of p) (countParams_of p) of
               Inl message \<Rightarrow> error_500 message
             | Inr first_row \<Rightarrow>
                 (let totalItems = (case first_row of None \<Rightarrow> Fin 0 | Some t \<Rightarrow> t) in
                  Response
                    (Obj [(''success'', Bool True),
                          (''results'',
                             Arr (map (\<lambda>r. row_value (hydrateRow J (Some r))) results)),
                          (''pagination'', pagination_of p totalItems)])
                    200)))"

section \<open>Create (handlePost)\<close>

text \<open>
  The request body: the decoded JSON value, or the message of the error that
  \<open>c.req.json()\<close> throws.
\<close>

type_synonym body = "string + jsval"

text \<open>\<open>!data || typeof data !== "object" || Array.isArray(data)\<close>\<close>

definition invalid_data :: "jsval \<Rightarrow> bool" where
  "invalid_data data = (\<not> truthy data \<or> typeof data \<noteq> TObject \<or> isArray data)"

text \<open>The mapping of \<open>handlePost\<close> from a looked-up value to the bound parameter.\<close>

definition post_coerce :: "JSON \<Rightarrow> jsval \<Rightarrow> jsval" where
  "post_coerce J value =
     (if value \<noteq> Null \<and> typeof value = TObject then Str (stringify J value)
      else if typeof value = TBoolean then Num (Fin (if value = Bool True then 1 else 0))
      else if value = Undefined \<or> value = Null then Null
      else value)"

definition post_columns :: "jsval \<Rightarrow> string list" where
  "post_columns data = map sanitizeIdentifier (object_keys data)"

definition post_params :: "JSON \<Rightarrow> jsval \<Rightarrow> jsval list" where
  "post_params J data = map (\<lambda>col. post_coerce J (get_prop data col)) (post_columns data)"

definition post_query :: "string \<Rightarrow> jsval \<Rightarrow> string" where
  "post_query tableName data =
     (let table = sanitizeKeyword tableName;
          columns = post_columns data;
          placeholders = join '', '' (map (\<lambda>_. ''?'') columns)
      in ''INSERT INTO '' @ table @ '' ('' @ join '', '' columns @ '') VALUES ('' @
         placeholders @ '')'')"

text \<open>
  The \<open>catch\<close> block of \<open>handlePost\<close>. The conflict message is in Portuguese ("this slug is
  already in use"); its two accented letters are the code unit 225.
\<close>

definition post_catch :: "string \<Rightarrow> outcome" where
  "post_catch message =
     (if str_includes message ''UNIQUE constraint failed'' then
        Response (Obj [(''success'', Bool False),
                       (''error'', Str (''Este Slug j'' @ [char_of (225 :: nat)] @ '' est'' @
                                       [char_of (225 :: nat)] @ '' em uso.''))]) 409
      else error_500 message)"

definition handlePost :: "JSON \<Rightarrow> engine \<Rightarrow> string \<Rightarrow> body \<Rightarrow> outcome" where
  "handlePost J db tableName request_body =
     (case request_body of
        Inl message \<Rightarrow> post_catch message
      | Inr data \<Rightarrow>
          if invalid_data data then
            Response (Obj [(''success'', Bool False), (''error'', Str ''Invalid data format'')]) 400
          else
            (case db_run db (post_query tableName data) (post_params J data) of
               Inl message \<Rightarrow> post_catch message
             | Inr result \<Rightarrow>
                 Response
                   (Obj [(''success'', Bool True),
                         (''message'', Str (tableName @ '' created successfully'')),
                         (''id'',
                            (if truthy (get_prop data ''slug'') then get_prop data ''slug''
                             else Num (Fin (of_int (last_row_id result)))))])
                   201))"

section \<open>Update (handleUpdate)\<close>

text \<open>The mapping of \<open>handleUpdate\<close> from a looked-up value to the bound parameter.\<close>

definition update_coerce :: "JSON \<Rightarrow> jsval \<Rightarrow> jsval" where
  "update_coerce J value =
     (if value \<noteq> Null \<and> typeof value = TObject then Str (stringify J value)
      else if typeof value = TBoolean then Num (Fin (if value = Bool True then 1 else 0))
      else value)"

definition update_columns :: "jsval \<Rightarrow> string list" where
  "update_columns data = map sanitizeIdentifier (object_keys data)"

definition update_params :: "JSON \<Rightarrow> jsval \<Rightarrow> string \<Rightarrow> jsval list" where
  "update_params J data rowId =
     map (\<lambda>col. update_coerce J (get_prop data col)) (update_columns data) @ [Str rowId]"

definition update_query :: "string \<Rightarrow> jsval \<Rightarrow> string" where
  "update_query tableName data =
     (let table = sanitizeKeyword tableName;
          columns = update_columns data;
          setColumns = join '', '' (map (\<lambda>col. col @ '' = ?'') columns);
          idColumn = idColumn_of tableName
      in ''UPDATE '' @ table @ '' SET '' @ setColumns @ '' WHERE '' @ idColumn @ '' = ?'')"

text \<open>\<open>c.req.json()\<close> is awaited outside the \<open>try\<close>: its error leaves the handler.\<close>

definition handleUpdate :: "JSON \<Rightarrow> engine \<Rightarrow> string \<Rightarrow> string \<Rightarrow> body \<Rightarrow> outcome" where
  "handleUpdate J db tableName rowId request_body =
     (case request_body of
        Inl message \<Rightarrow> Uncaught message
      | Inr data \<Rightarrow>
          if invalid_data data then
            Response (Obj [(''error'', Str ''Invalid data format'')]) 400
          else
            (case db_run db (update_query tableName data) (update_params J data rowId) of
               Inl message \<Rightarrow> error_500 message
             | Inr result \<Rightarrow>
                 Response
                   (Obj [(''success'', Bool True),
                         (''message'', Str ''Resource updated successfully''),
                         (''data'', data)])
                   200))"

section \<open>Delete (handleDelete)\<close>

definition delete_query :: "string \<Rightarrow> string" where
  "delete_query tableName =
     ''DELETE FROM '' @ sanitizeKeyword tableName @ '' WHERE '' @ idColumn_of tableName @ '' = ?''"

definition handleDelete :: "engine \<Rightarrow> string \<Rightarrow> string \<Rightarrow> outcome" where
  "handleDelete db tableName rowId =
     (case db_run db (delete_query tableName) [Str rowId] of
        Inl message \<Rightarrow> error_500 message
      | Inr result \<Rightarrow>
          if changes result = 0 then Response (Obj [(''error'', Str ''Record not found'')]) 404
          else
            Response (Obj [(''success'', Bool True),
                           (''message'', Str ''Resource deleted successfully'')]) 200)"

section \<open>Notions used to state the properties\<close>

text \<open>The filter set: the query-string entries whose key is not a reserved control key.\<close>

definition filters_of :: "searchParams \<Rightarrow> searchParams" where
  "filters_of sp = filter (\<lambda>(key, value). key \<notin> set reserved_keys) sp"

text \<open>The column identifiers of the WHERE clause, and the values bound to them, in order.\<close>

definition where_columns :: "string \<Rightarrow> string option \<Rightarrow> searchParams \<Rightarrow> string list" where
  "where_columns tableName rowId sp =
     (if id_given rowId then [idColumn_of tableName] else []) @
     map (\<lambda>(key, value). sanitizeIdentifier key) (filters_of sp)"

definition where_values :: "string option \<Rightarrow> searchParams \<Rightarrow> jsval list" where
  "where_values rowId sp =
     (case rowId of None \<Rightarrow> [] | Some s \<Rightarrow> if s = [] then [] else [Str s]) @
     map (\<lambda>(key, value). Str value) (filters_of sp)"

definition where_text :: "string list \<Rightarrow> string" where
  "where_text cols =
     (if cols = [] then [] else '' WHERE '' @ join '' AND '' (map (\<lambda>col. col @ '' = ?'') cols))"

text \<open>The sort column before sanitizing, the direction, and the parsed control parameters.\<close>

definition sort_by_of :: "string \<Rightarrow> searchParams \<Rightarrow> string" where
  "sort_by_of tableName sp = or_else (sp_get sp ''sort_by'') (idColumn_of tableName)"

definition order_of :: "searchParams \<Rightarrow> string" where
  "order_of sp =
     (if map_option toUpperCase (sp_get sp ''order'') = Some ''DESC'' then ''DESC'' else ''ASC'')"

definition limit_of :: "searchParams \<Rightarrow> number" where
  "limit_of sp = parseInt (or_else (sp_get sp ''limit'') ''0'')"

definition page_param_of :: "searchParams \<Rightarrow> number" where
  "page_param_of sp = parseInt (or_else (sp_get sp ''page'') ''1'')"

text \<open>
  The characters a statement text may contain: identifier characters, the blank, and the
  four punctuation marks of the fixed statement skeleton.
\<close>

definition statement_char :: "char \<Rightarrow> bool" where
  "statement_char c = (is_ident_char c \<or> c \<in> set '' *=?`'')"

section \<open>Sample platform and engines\<close>

text \<open>
  A fragment of the platform's JSON functions, on the two texts the examples use; every
  other value is outside the fragment (it is answered with \<open>null\<close>) and every other text is
  taken as malformed.
\<close>

definition sample_JSON :: JSON where
  \<open>sample_JSON =
     \<lparr> stringify =
         (\<lambda>v. if v = Arr [Str ''a'', Str ''b''] then ''["a","b"]''
              else if v = Obj [(''theme'', Str ''dark'')] then ''{"theme":"dark"}''
              else ''null''),
       parse =
         (\<lambda>s. if s = ''["a","b"]'' then Some (Arr [Str ''a'', Str ''b''])
              else if s = ''{"theme":"dark"}'' then Some (Obj [(''theme'', Str ''dark'')])
              else None) \<rparr>\<close>

text \<open>An engine that answers every statement with the given rows, count and descriptor.\<close>

definition answering_engine :: "row list \<Rightarrow> number option \<Rightarrow> run_meta \<Rightarrow> engine" where
  "answering_engine rows count meta =
     \<lparr> db_all = (\<lambda>query params. Inr rows),
       db_first = (\<lambda>query params. Inr count),
       db_run = (\<lambda>query params. Inr meta) \<rparr>"

text \<open>An engine on which every statement fails with the given message.\<close>

definition failing_engine :: "string \<Rightarrow> engine" where
  "failing_engine message =
     \<lparr> db_all = (\<lambda>query params. Inl message),
       db_first = (\<lambda>query params. Inl message),
       db_run = (\<lambda>query params. Inl message) \<rparr>"

text \<open>
  An engine whose table \<open>items\<close> holds the single row \<open>{id: "7", name: "x"}\<close>, on the two
  statements of an id lookup sorted by \<open>id\<close>: the row matches when the id bound first is
  \<open>"7"\<close>, and \<open>LIMIT keep OFFSET skip\<close> keeps \<open>keep\<close> of the matching rows after skipping \<open>skip\<close>.
\<close>

definition items_row :: row where
  "items_row = [(''id'', Str ''7''), (''name'', Str ''x'')]"

definition items_engine :: engine where
  "items_engine =
     \<lparr> db_all =
         (\<lambda>query params.
            let matching = (if params \<noteq> [] \<and> hd params = Str ''7'' then [items_row] else [])
            in if query = ''SELECT * FROM `items` WHERE id = ? ORDER BY id ASC'' then
                 Inr matching
               else if query =
                   ''SELECT * FROM `items` WHERE id = ? ORDER BY id ASC LIMIT ? OFFSET ?'' then
                 (case params of
                    [i, Num (Fin keep), Num (Fin skip)] \<Rightarrow>
                      Inr (take (nat \<lfloor>keep\<rfloor>) (drop (nat \<lfloor>skip\<rfloor>) matching))
                  | _ \<Rightarrow> Inl ''wrong number of bound parameters'')
               else Inl ''statement outside the sample''),
       db_first = (\<lambda>query params. Inl ''statement outside the sample''),
       db_run = (\<lambda>query params. Inl ''statement outside the sample'') \<rparr>"

section \<open>Auxiliary facts\<close>

lemma sanitizeIdentifier_filter: "sanitizeIdentifier s = filter is_ident_char s"
  by (induction s) simp_all

lemma sanitizeIdentifier_chars: "c \<in> set (sanitizeIdentifier s) \<Longrightarrow> is_ident_char c"
  by (simp add: sanitizeIdentifier_filter)

lemma filter_loop_acc:
  "filter_loop sp (cs, ps) =
     (cs @ map (\<lambda>(key, value). sanitizeIdentifier key @ '' = ?'') (filters_of sp),
      ps @ map (\<lambda>(key, value). Str value) (filters_of sp))"
  by (induction sp arbitrary: cs ps) (auto simp: filters_of_def)

lemma filter_loop_eq:
  "filter_loop sp acc =
     (fst acc @ map (\<lambda>(key, value). sanitizeIdentifier key @ '' = ?'') (filters_of sp),
      snd acc @ map (\<lambda>(key, value). Str value) (filters_of sp))"
  by (cases acc) (simp add: filter_loop_acc)

lemma build_select_table: "sp_table (build_select t i sp) = sanitizeKeyword t"
  by (simp add: build_select_def Let_def split: prod.splits)

lemma build_select_limit: "sp_limit (build_select t i sp) = limit_of sp"
  by (simp add: build_select_def Let_def limit_of_def split: prod.splits)

lemma build_select_page: "sp_page (build_select t i sp) = math_max (Fin 1) (page_param_of sp)"
  by (simp add: build_select_def Let_def page_param_of_def split: prod.splits)

lemma build_select_offset:
  "sp_offset (build_select t i sp) =
     num_mul (num_sub (math_max (Fin 1) (page_param_of sp)) (Fin 1)) (limit_of sp)"
  by (simp add: build_select_def Let_def page_param_of_def limit_of_def split: prod.splits)

lemma map_cond:
  "(\<lambda>col. col @ '' = ?'') \<circ> (\<lambda>(key, value). sanitizeIdentifier key) =
     (\<lambda>(key, value). sanitizeIdentifier key @ '' = ?'')"
  by (auto simp: fun_eq_iff)

lemma build_select_whereClause:
  "sp_whereClause (build_select t i sp) = where_text (where_columns t i sp)"
  by (simp add: build_select_def Let_def filter_loop_eq where_text_def where_columns_def map_cond
      split: prod.splits option.splits)

lemma build_select_params:
  "sp_params (build_select t i sp) =
     where_values i sp @
     (if num_gt (limit_of sp) (Fin 0)
      then [Num (limit_of sp), Num (sp_offset (build_select t i sp))] else [])"
  by (simp add: build_select_def Let_def filter_loop_eq where_values_def limit_of_def
      split: prod.splits option.splits)

lemma build_select_query:
  "sp_query (build_select t i sp) =
     ''SELECT * FROM '' @ sanitizeKeyword t @ where_text (where_columns t i sp) @
     '' ORDER BY '' @ sanitizeIdentifier (sort_by_of t sp) @ '' '' @ order_of sp @
     (if num_gt (limit_of sp) (Fin 0) then '' LIMIT ? OFFSET ?'' else [])"
  by (simp add: build_select_def Let_def filter_loop_eq where_text_def where_columns_def map_cond
      limit_of_def sort_by_of_def order_of_def split: prod.splits option.splits)

lemma list_all_join:
  "list_all P sep \<Longrightarrow> list_all (list_all P) xs \<Longrightarrow> list_all P (join sep xs)"
  by (induction sep xs rule: join.induct) simp_all

lemma list_all_sanitize: "list_all is_ident_char (sanitizeIdentifier s)"
  by (simp add: sanitizeIdentifier_filter list_all_iff)

lemma ident_is_statement_char: "is_ident_char c \<Longrightarrow> statement_char c"
  by (simp add: statement_char_def)

lemma list_all_ident_statement: "list_all is_ident_char s \<Longrightarrow> list_all statement_char s"
  by (simp add: list_all_iff ident_is_statement_char)

lemma idColumn_ident: "list_all is_ident_char (idColumn_of t)"
  by (simp add: idColumn_of_def is_ident_char_def)

lemma where_columns_ident: "list_all (list_all is_ident_char) (where_columns t i sp)"
proof -
  have "list_all (list_all is_ident_char) (map (\<lambda>(key, value). sanitizeIdentifier key) xs)" for xs :: searchParams
    by (induction xs) (simp_all add: list_all_sanitize split_beta)
  then show ?thesis
    by (simp add: where_columns_def idColumn_ident)
qed

lemma literal_chars:
  "list_all statement_char '' WHERE ''"
  "list_all statement_char '' AND ''"
  "list_all statement_char '' = ?''"
  "list_all statement_char ''SELECT * FROM ''"
  "list_all statement_char '' ORDER BY ''"
  "list_all statement_char '' LIMIT ? OFFSET ?''"
  "list_all statement_char ''DESC''"
  "list_all statement_char ''ASC''"
  "statement_char (CHR '' '')"
  "statement_char (CHR ''`'')"
  by (simp_all add: statement_char_def is_ident_char_def)

lemma cond_chars: "list_all is_ident_char col \<Longrightarrow> list_all statement_char (col @ '' = ?'')"
  using literal_chars(3) by (simp only: list_all_append list_all_ident_statement simp_thms)

lemma where_text_chars: "list_all statement_char (where_text (where_columns t i sp))"
proof -
  have "list_all (list_all is_ident_char) cols \<Longrightarrow>
        list_all (list_all statement_char) (map (\<lambda>col. col @ '' = ?'') cols)" for cols
    by (induction cols) (simp_all add: cond_chars del: list_all_append)
  then have "list_all (list_all statement_char)
               (map (\<lambda>col. col @ '' = ?'') (where_columns t i sp))"
    using where_columns_ident by blast
  then have "list_all statement_char
               (join '' AND '' (map (\<lambda>col. col @ '' = ?'') (where_columns t i sp)))"
    using literal_chars(2) list_all_join by blast
  then show ?thesis
    unfolding where_text_def using literal_chars(1)
    by (simp only: list_all_append list.pred_inject(1) simp_thms split: if_split)
qed

lemma order_of_chars: "list_all statement_char (order_of sp)"
  unfolding order_of_def using literal_chars(7,8) by (simp only: split: if_split) simp

lemma query_chars: "list_all statement_char (sp_query (build_select t i sp))"
proof -
  have k: "list_all statement_char (sanitizeKeyword t)"
    unfolding sanitizeKeyword_def
    using literal_chars(10) list_all_ident_statement [OF list_all_sanitize [of t]]
    by simp
  have s: "list_all statement_char (sanitizeIdentifier (sort_by_of t sp))"
    by (rule list_all_ident_statement [OF list_all_sanitize])
  have b: "list_all statement_char '' ''"
    using literal_chars(9) by simp
  have e: "list_all statement_char []" by simp
  show ?thesis
    unfolding build_select_query
    using k s b e literal_chars(4,5,6) where_text_chars [of t i sp] order_of_chars [of sp]
    by (simp only: list_all_append simp_thms split: if_split)
qed

lemmas parse_eval = parseInt_def is_white_space_def is_digit_def digit_value_def digits_value_def

lemmas select_eval =
  build_select_def Let_def sanitizeKeyword_def idColumn_of_def reserved_keys_def
  is_ident_char_def toUpperCase_def upper_char_def parse_eval limit_of_def page_param_of_def
  sort_by_of_def order_of_def where_values_def where_columns_def where_text_def filters_of_def
  countQuery_of_def countParams_of_def

lemma countParams_where_values:
  "countParams_of (build_select t i sp) = where_values i sp"
  by (simp add: countParams_of_def build_select_params build_select_limit)

lemma handleGet_collection:
  assumes "\<not> id_given rowId"
    and "db_all db (sp_query (build_select t rowId sp)) (sp_params (build_select t rowId sp)) =
           Inr results"
  shows "handleGet J db t rowId sp =
     (case db_first db (countQuery_of (build_select t rowId sp))
             (countParams_of (build_select t rowId sp)) of
        Inl message \<Rightarrow> error_500 message
      | Inr first_row \<Rightarrow>
          Response
            (Obj [(''success'', Bool True),
                  (''results'', Arr (map (\<lambda>r. row_value (hydrateRow J (Some r))) results)),
                  (''pagination'',
                     pagination_of (build_select t rowId sp)
                       (case first_row of None \<Rightarrow> Fin 0 | Some n \<Rightarrow> n))])
            200)"
  using assms by (simp add: handleGet_def Let_def split: sum.splits)

lemma ceiling_47_10: "\<lceil>47 / 10 :: rat\<rceil> = 5"
  by (rule ceiling_unique) simp_all


lemma filters_of_idem: "filters_of (filters_of sp) = filters_of sp"
  by (simp add: filters_of_def)

lemma sp_get_filters_of:
  "name \<in> set reserved_keys \<Longrightarrow> sp_get (filters_of sp) name = None"
  by (induction sp) (auto simp: filters_of_def)

lemma filters_of_controls:
  "limit_of (filters_of sp) = Fin 0"
  "sort_by_of t (filters_of sp) = idColumn_of t"
  "order_of (filters_of sp) = ''ASC''"
  by (simp_all add: limit_of_def sort_by_of_def order_of_def sp_get_filters_of reserved_keys_def
      parse_eval)

lemma sanitize_idColumn: "sanitizeIdentifier (idColumn_of t) = idColumn_of t"
  by (simp add: idColumn_of_def is_ident_char_def)

lemma handleGet_id:
  assumes "id_given rowId"
  shows "handleGet J db t rowId sp =
     (case db_all db (sp_query (build_select t rowId sp)) (sp_params (build_select t rowId sp)) of
        Inl message \<Rightarrow> error_500 message
      | Inr [] \<Rightarrow> Response (Obj [(''success'', Bool False), (''error'', Str ''Not Found'')]) 404
      | Inr (r # rest) \<Rightarrow>
          Response
            (Obj [(''success'', Bool True),
                  (''result'', Obj (map (\<lambda>(key, value). (key, hydrateValue J value)) r))])
            200)"
  using assms by (simp add: handleGet_def Let_def split: sum.splits list.splits)

lemma hydrateValue_string:
  "c = CHR ''{'' \<or> c = CHR ''['' \<Longrightarrow>
   hydrateValue J (Str (c # s)) = (case parse J (c # s) of Some v \<Rightarrow> v | None \<Rightarrow> Str (c # s))"
  by (auto simp: hydrateValue_def)

lemma hydrateValue_other:
  assumes "v \<noteq> Num (Fin 0)" and "v \<noteq> Num (Fin 1)"
    and "\<forall>c s. v = Str (c # s) \<longrightarrow> c \<noteq> CHR ''{'' \<and> c \<noteq> CHR ''[''"
  shows "hydrateValue J v = v"
  using assms by (auto simp: hydrateValue_def split: jsval.splits list.splits)

lemma handlePost_created:
  assumes "\<not> invalid_data data"
    and "db_run db (post_query t data) (post_params J data) = Inr result"
  shows "handlePost J db t (Inr data) =
     Response
       (Obj [(''success'', Bool True),
             (''message'', Str (t @ '' created successfully'')),
             (''id'',
                (if truthy (get_prop data ''slug'') then get_prop data ''slug''
                 else Num (Fin (of_int (last_row_id result)))))])
       201"
  using assms by (simp add: handlePost_def)

lemma handlePost_201:
  "(\<exists>b. handlePost J db t request_body = Response b 201) \<longleftrightarrow>
   (\<exists>data result. request_body = Inr data \<and> \<not> invalid_data data \<and>
      db_run db (post_query t data) (post_params J data) = Inr result)"
  by (auto simp: handlePost_def post_catch_def error_500_def split: sum.splits if_splits)

lemma slug_not_inherited: "''slug'' \<noteq> ''__proto__''" "''slug'' \<notin> set prototype_methods"
  by (simp_all add: prototype_methods_def)

lemma update_rejects_as_create:
  "(\<exists>b. handleUpdate J db t rowId (Inr data) = Response b 400) \<longleftrightarrow> invalid_data data"
  "(\<exists>b. handlePost J db t (Inr data) = Response b 400) \<longleftrightarrow> invalid_data data"
  by (auto simp: handleUpdate_def handlePost_def post_catch_def error_500_def
      split: sum.splits)

lemma invalid_data_iff: "invalid_data data \<longleftrightarrow> (\<forall>kvs. data \<noteq> Obj kvs)"
  by (cases data rule: truthy.cases) (simp_all add: invalid_data_def)

lemma update_coerce_agrees:
  "value \<noteq> Undefined \<Longrightarrow> update_coerce J value = post_coerce J value"
  by (auto simp: update_coerce_def post_coerce_def)

lemma map_of_update_other:
  "i < length kvs \<Longrightarrow> fst (kvs ! i) = k \<Longrightarrow> c \<noteq> k \<Longrightarrow>
   map_of (kvs[i := (k, v)]) c = map_of kvs c"
proof (induction kvs arbitrary: i)
  case Nil
  then show ?case by simp
next
  case (Cons kv kvs)
  then show ?case by (cases i) (auto split: prod.splits)
qed

lemma get_prop_update_other:
  "i < length kvs \<Longrightarrow> fst (kvs ! i) = k \<Longrightarrow> c \<noteq> k \<Longrightarrow>
   get_prop (Obj (kvs[i := (k, v)])) c = get_prop (Obj kvs) c"
  by (simp add: map_of_update_other)

lemma handlePost_runs:
  "\<not> invalid_data data \<Longrightarrow>
   handlePost J db t (Inr data) =
     (case db_run db (post_query t data) (post_params J data) of
        Inl message \<Rightarrow> post_catch message
      | Inr result \<Rightarrow>
          Response
            (Obj [(''success'', Bool True),
                  (''message'', Str (t @ '' created successfully'')),
                  (''id'',
                     (if truthy (get_prop data ''slug'') then get_prop data ''slug''
                      else Num (Fin (of_int (last_row_id result)))))])
            201)"
  by (simp add: handlePost_def)

section \<open>Identifiers in the statement text\<close>

text \<open>
  Claim C1. For every table name and every filter set, each identifier placed in the
  statement text is made of characters of \<open>[A-Za-z0-9_]\<close> only: the sanitizer keeps
  exactly the characters of that class, and the statement of \<open>handleGet\<close> (and its count
  statement) is the fixed skeleton around the sanitized table name, the WHERE columns
  (the identifying column and the sanitized filter keys) and the sanitized sort column;
  so the whole text consists of identifier characters, blanks and the skeleton's
  punctuation.
\<close>

theorem identifiers_in_statement_are_sanitized:
  "(\<forall>c \<in> set (sanitizeIdentifier name). is_ident_char c) \<and>
   sanitizeIdentifier name = filter is_ident_char name \<and>
   sp_query (build_select tableName rowId sp) =
     ''SELECT * FROM `'' @ sanitizeIdentifier tableName @ ''`'' @
     where_text (where_columns tableName rowId sp) @
     '' ORDER BY '' @ sanitizeIdentifier (sort_by_of tableName sp) @ '' '' @ order_of sp @
     (if num_gt (limit_of sp) (Fin 0) then '' LIMIT ? OFFSET ?'' else []) \<and>
   countQuery_of (build_select tableName rowId sp) =
     ''SELECT COUNT(*) as total FROM `'' @ sanitizeIdentifier tableName @ ''`'' @
     where_text (where_columns tableName rowId sp) \<and>
   where_columns tableName rowId sp =
     (if id_given rowId then [idColumn_of tableName] else []) @
     map (\<lambda>(key, value). sanitizeIdentifier key) (filters_of sp) \<and>
   (\<forall>col \<in> set (where_columns tableName rowId sp). \<forall>c \<in> set col. is_ident_char c) \<and>
   (\<forall>c \<in> set (sp_query (build_select tableName rowId sp)). statement_char c)"
proof (intro conjI)
  show "\<forall>c \<in> set (sanitizeIdentifier name). is_ident_char c"
    using sanitizeIdentifier_chars by blast
  show "sanitizeIdentifier name = filter is_ident_char name"
    by (rule sanitizeIdentifier_filter)
  show "\<forall>col \<in> set (where_columns tableName rowId sp). \<forall>c \<in> set col. is_ident_char c"
    using where_columns_ident [of tableName rowId sp] by (auto simp: list_all_iff)
  show "\<forall>c \<in> set (sp_query (build_select tableName rowId sp)). statement_char c"
    using query_chars [of tableName rowId sp] by (simp only: list_all_iff)
  show "sp_query (build_select tableName rowId sp) =
     ''SELECT * FROM `'' @ sanitizeIdentifier tableName @ ''`'' @
     where_text (where_columns tableName rowId sp) @
     '' ORDER BY '' @ sanitizeIdentifier (sort_by_of tableName sp) @ '' '' @ order_of sp @
     (if num_gt (limit_of sp) (Fin 0) then '' LIMIT ? OFFSET ?'' else [])"
    unfolding build_select_query sanitizeKeyword_def by simp
  show "countQuery_of (build_select tableName rowId sp) =
     ''SELECT COUNT(*) as total FROM `'' @ sanitizeIdentifier tableName @ ''`'' @
     where_text (where_columns tableName rowId sp)"
    unfolding countQuery_of_def build_select_table build_select_whereClause sanitizeKeyword_def
    by simp
  show "where_columns tableName rowId sp =
     (if id_given rowId then [idColumn_of tableName] else []) @
     map (\<lambda>(key, value). sanitizeIdentifier key) (filters_of sp)"
    by (rule where_columns_def)
qed

theorem identifiers_in_statement_are_sanitized_witness:
  "sanitizeIdentifier ''users; DROP TABLE x'' = ''usersDROPTABLEx'' \<and>
   list_all is_ident_char ''usersDROPTABLEx'' \<and>
   sp_query (build_select ''users; DROP TABLE x'' None
               [(''na-me; --'', ''bob''), (''sort_by'', ''price; DELETE'')]) =
     ''SELECT * FROM `usersDROPTABLEx` WHERE name = ? ORDER BY priceDELETE ASC'' \<and>
   list_all statement_char
     ''SELECT * FROM `usersDROPTABLEx` WHERE name = ? ORDER BY priceDELETE ASC''"
proof -
  have q: "sp_query (build_select ''users; DROP TABLE x'' None
               [(''na-me; --'', ''bob''), (''sort_by'', ''price; DELETE'')]) =
     ''SELECT * FROM `usersDROPTABLEx` WHERE name = ? ORDER BY priceDELETE ASC''"
    by (simp add: build_select_query where_text_def where_columns_def filters_of_def
        reserved_keys_def sort_by_of_def order_of_def limit_of_def parseInt_def
        is_white_space_def is_digit_def digit_value_def digits_value_def is_ident_char_def
        sanitizeKeyword_def)
  have s: "sanitizeIdentifier ''users; DROP TABLE x'' = ''usersDROPTABLEx''"
    by (simp add: is_ident_char_def)
  note T = identifiers_in_statement_are_sanitized
            [of "''users; DROP TABLE x''" "''users; DROP TABLE x''" None
                "[(''na-me; --'', ''bob''), (''sort_by'', ''price; DELETE'')]"]
  have a: "list_all is_ident_char ''usersDROPTABLEx''"
    using T [THEN conjunct1] unfolding s list_all_iff .
  have b: "list_all statement_char
             ''SELECT * FROM `usersDROPTABLEx` WHERE name = ? ORDER BY priceDELETE ASC''"
    using T [THEN conjunct2, THEN conjunct2, THEN conjunct2, THEN conjunct2, THEN conjunct2,
             THEN conjunct2]
    unfolding q list_all_iff .
  from s a q b show ?thesis
    by (intro conjI)
qed

section \<open>Lookup of a row by id\<close>

text \<open>
  Claim C2, amended. When a row id is supplied, the WHERE clause starts with the
  identifying column bound to that id, and the clause and the values bound to it are
  those of the request without \<open>sort_by\<close>, \<open>order\<close>, \<open>limit\<close> and \<open>page\<close>. The ORDER BY and,
  when \<open>limit > 0\<close>, \<open>LIMIT ? OFFSET ?\<close> with the offset \<open>(page - 1) * limit\<close> are still part
  of the statement, and the response is the first row the engine returns for it, or the
  not-found outcome when it returns none. The statement, and so the response, is the
  same as without those parameters when the limit is not positive and the sort is the
  default one.
\<close>

theorem id_lookup_statement:
  "id_given rowId \<longrightarrow>
   (let p = build_select t rowId sp; p0 = build_select t rowId (filters_of sp) in
      sp_whereClause p = sp_whereClause p0 \<and>
      sp_whereClause p =
        '' WHERE '' @
        join '' AND ''
          (map (\<lambda>col. col @ '' = ?'')
             (idColumn_of t # map (\<lambda>(key, value). sanitizeIdentifier key) (filters_of sp))) \<and>
      (\<forall>s. rowId = Some s \<longrightarrow>
         sp_params p0 = Str s # map (\<lambda>(key, value). Str value) (filters_of sp)) \<and>
      sp_params p =
        sp_params p0 @
        (if num_gt (limit_of sp) (Fin 0) then [Num (limit_of sp), Num (sp_offset p)] else []) \<and>
      sp_query p0 =
        ''SELECT * FROM '' @ sp_table p @ sp_whereClause p @ '' ORDER BY '' @ idColumn_of t @
        '' ASC'' \<and>
      sp_query p =
        ''SELECT * FROM '' @ sp_table p @ sp_whereClause p @ '' ORDER BY '' @
        sanitizeIdentifier (sort_by_of t sp) @ '' '' @ order_of sp @
        (if num_gt (limit_of sp) (Fin 0) then '' LIMIT ? OFFSET ?'' else []) \<and>
      handleGet J db t rowId sp =
        (case db_all db (sp_query p) (sp_params p) of
           Inl message \<Rightarrow> error_500 message
         | Inr [] \<Rightarrow>
             Response (Obj [(''success'', Bool False), (''error'', Str ''Not Found'')]) 404
         | Inr (r # rest) \<Rightarrow>
             Response
               (Obj [(''success'', Bool True),
                     (''result'', Obj (map (\<lambda>(key, value). (key, hydrateValue J value)) r))])
               200) \<and>
      (\<not> num_gt (limit_of sp) (Fin 0) \<and>
       sanitizeIdentifier (sort_by_of t sp) = idColumn_of t \<and> order_of sp = ''ASC'' \<longrightarrow>
         handleGet J db t rowId sp = handleGet J db t rowId (filters_of sp)))"
proof
  assume g: "id_given rowId"
  let ?p = "build_select t rowId sp" and ?base = "build_select t rowId (filters_of sp)"
  have w: "sp_whereClause ?p = sp_whereClause ?base"
    by (simp add: build_select_whereClause where_columns_def filters_of_idem)
  have w': "sp_whereClause ?p =
        '' WHERE '' @
        join '' AND ''
          (map (\<lambda>col. col @ '' = ?'')
             (idColumn_of t # map (\<lambda>(key, value). sanitizeIdentifier key) (filters_of sp)))"
    using g by (simp add: build_select_whereClause where_columns_def where_text_def)
  have p0: "sp_params ?base = Str s # map (\<lambda>(key, value). Str value) (filters_of sp)"
    if "rowId = Some s" for s
    using g that by (simp add: build_select_params where_values_def filters_of_idem
        filters_of_controls)
  have ps: "sp_params ?p =
        sp_params ?base @
        (if num_gt (limit_of sp) (Fin 0) then [Num (limit_of sp), Num (sp_offset ?p)] else [])"
    using g by (simp add: build_select_params where_values_def filters_of_idem
        filters_of_controls)
  have t0: "sp_table ?base = sp_table ?p"
    by (simp add: build_select_table)
  have q0: "sp_query ?base =
        ''SELECT * FROM '' @ sp_table ?p @ sp_whereClause ?p @ '' ORDER BY '' @ idColumn_of t @
        '' ASC''"
    by (simp add: build_select_query build_select_table build_select_whereClause
        where_columns_def filters_of_idem filters_of_controls sanitize_idColumn)
  have q: "sp_query ?p =
        ''SELECT * FROM '' @ sp_table ?p @ sp_whereClause ?p @ '' ORDER BY '' @
        sanitizeIdentifier (sort_by_of t sp) @ '' '' @ order_of sp @
        (if num_gt (limit_of sp) (Fin 0) then '' LIMIT ? OFFSET ?'' else [])"
    by (simp add: build_select_query build_select_table build_select_whereClause)
  have h: "handleGet J db t rowId sp =
        (case db_all db (sp_query ?p) (sp_params ?p) of
           Inl message \<Rightarrow> error_500 message
         | Inr [] \<Rightarrow>
             Response (Obj [(''success'', Bool False), (''error'', Str ''Not Found'')]) 404
         | Inr (r # rest) \<Rightarrow>
             Response
               (Obj [(''success'', Bool True),
                     (''result'', Obj (map (\<lambda>(key, value). (key, hydrateValue J value)) r))])
               200)"
    using g by (rule handleGet_id)
  have same: "handleGet J db t rowId sp = handleGet J db t rowId (filters_of sp)"
    if "\<not> num_gt (limit_of sp) (Fin 0) \<and>
        sanitizeIdentifier (sort_by_of t sp) = idColumn_of t \<and> order_of sp = ''ASC''"
  proof -
    from that have "sp_query ?p = sp_query ?base"
      unfolding q q0 by simp
    moreover from that have "sp_params ?p = sp_params ?base"
      unfolding ps by simp
    ultimately show ?thesis
      unfolding handleGet_id [OF g] by simp
  qed
  show "let p = ?p; p0 = ?base in
      sp_whereClause p = sp_whereClause p0 \<and>
      sp_whereClause p =
        '' WHERE '' @
        join '' AND ''
          (map (\<lambda>col. col @ '' = ?'')
             (idColumn_of t # map (\<lambda>(key, value). sanitizeIdentifier key) (filters_of sp))) \<and>
      (\<forall>s. rowId = Some s \<longrightarrow>
         sp_params p0 = Str s # map (\<lambda>(key, value). Str value) (filters_of sp)) \<and>
      sp_params p =
        sp_params p0 @
        (if num_gt (limit_of sp) (Fin 0) then [Num (limit_of sp), Num (sp_offset p)] else []) \<and>
      sp_query p0 =
        ''SELECT * FROM '' @ sp_table p @ sp_whereClause p @ '' ORDER BY '' @ idColumn_of t @
        '' ASC'' \<and>
      sp_query p =
        ''SELECT * FROM '' @ sp_table p @ sp_whereClause p @ '' ORDER BY '' @
        sanitizeIdentifier (sort_by_of t sp) @ '' '' @ order_of sp @
        (if num_gt (limit_of sp) (Fin 0) then '' LIMIT ? OFFSET ?'' else []) \<and>
      handleGet J db t rowId sp =
        (case db_all db (sp_query p) (sp_params p) of
           Inl message \<Rightarrow> error_500 message
         | Inr [] \<Rightarrow>
             Response (Obj [(''success'', Bool False), (''error'', Str ''Not Found'')]) 404
         | Inr (r # rest) \<Rightarrow>
             Response
               (Obj [(''success'', Bool True),
                     (''result'', Obj (map (\<lambda>(key, value). (key, hydrateValue J value)) r))])
               200) \<and>
      (\<not> num_gt (limit_of sp) (Fin 0) \<and>
       sanitizeIdentifier (sort_by_of t sp) = idColumn_of t \<and> order_of sp = ''ASC'' \<longrightarrow>
         handleGet J db t rowId sp = handleGet J db t rowId (filters_of sp))"
    unfolding Let_def
    using w w' p0 ps q0 q h same by (intro conjI impI allI)
qed

theorem id_lookup_statement_witness:
  "id_given (Some ''7'') \<and>
   sp_query (build_select ''items'' (Some ''7'') [(''limit'', ''1''), (''page'', ''2'')]) =
     ''SELECT * FROM `items` WHERE id = ? ORDER BY id ASC LIMIT ? OFFSET ?'' \<and>
   sp_params (build_select ''items'' (Some ''7'') [(''limit'', ''1''), (''page'', ''2'')]) =
     [Str ''7'', Num (Fin 1), Num (Fin 1)] \<and>
   handleGet sample_JSON items_engine ''items'' (Some ''7'') [(''page'', ''2'')] =
     handleGet sample_JSON items_engine ''items'' (Some ''7'') [] \<and>
   handleGet sample_JSON items_engine ''items'' (Some ''7'') [(''page'', ''2'')] =
     Response
       (Obj [(''success'', Bool True),
             (''result'', Obj [(''id'', Str ''7''), (''name'', Str ''x'')])])
       200"
proof -
  have g: "id_given (Some ''7'')"
    by simp
  have c: "limit_of [(''page'', ''2'')] = Fin 0" "sort_by_of ''items'' [(''page'', ''2'')] = ''id''"
    "order_of [(''page'', ''2'')] = ''ASC''" "filters_of [(''page'', ''2'')] = []"
    "limit_of [(''limit'', ''1''), (''page'', ''2'')] = Fin 1"
    "sort_by_of ''items'' [(''limit'', ''1''), (''page'', ''2'')] = ''id''"
    "order_of [(''limit'', ''1''), (''page'', ''2'')] = ''ASC''"
    "filters_of [(''limit'', ''1''), (''page'', ''2'')] = []"
    "idColumn_of ''items'' = ''id''"
    by (simp_all add: limit_of_def sort_by_of_def order_of_def filters_of_def reserved_keys_def
        idColumn_of_def parse_eval)
  have o: "sp_offset (build_select ''items'' (Some ''7'') [(''limit'', ''1''), (''page'', ''2'')]) =
             Fin 1"
    by (simp add: build_select_offset page_param_of_def limit_of_def parse_eval)
  have r: "db_all items_engine ''SELECT * FROM `items` WHERE id = ? ORDER BY id ASC'' [Str ''7''] =
             Inr [items_row]"
    by (simp add: items_engine_def)
  let ?sp1 = "[(''limit'', ''1''), (''page'', ''2'')]" and ?sp2 = "[(''page'', ''2'')]"
  note T1 = id_lookup_statement
      [of "Some ''7''" "''items''" ?sp1 sample_JSON items_engine, rule_format, OF g,
       unfolded Let_def]
  note T2 = id_lookup_statement
      [of "Some ''7''" "''items''" ?sp2 sample_JSON items_engine, rule_format, OF g,
       unfolded Let_def]
  have w1: "sp_whereClause (build_select ''items'' (Some ''7'') ?sp1) = '' WHERE id = ?''"
    using T1 [THEN conjunct2, THEN conjunct1] unfolding c by simp
  have q1: "sp_query (build_select ''items'' (Some ''7'') ?sp1) =
     ''SELECT * FROM `items` WHERE id = ? ORDER BY id ASC LIMIT ? OFFSET ?''"
    using T1 [THEN conjunct2, THEN conjunct2, THEN conjunct2, THEN conjunct2, THEN conjunct2,
              THEN conjunct1]
    unfolding c w1 build_select_table
    by (simp add: sanitizeKeyword_def is_ident_char_def)
  have p1: "sp_params (build_select ''items'' (Some ''7'') ?sp1) =
     [Str ''7'', Num (Fin 1), Num (Fin 1)]"
    using T1 [THEN conjunct2, THEN conjunct2, THEN conjunct1]
      T1 [THEN conjunct2, THEN conjunct2, THEN conjunct2, THEN conjunct1]
    unfolding c o by simp
  have same: "handleGet sample_JSON items_engine ''items'' (Some ''7'') ?sp2 =
     handleGet sample_JSON items_engine ''items'' (Some ''7'') []"
    using T2 [THEN conjunct2, THEN conjunct2, THEN conjunct2, THEN conjunct2, THEN conjunct2,
              THEN conjunct2, THEN conjunct2]
    unfolding c by (simp add: is_ident_char_def)
  have w2: "sp_whereClause (build_select ''items'' (Some ''7'') ?sp2) = '' WHERE id = ?''"
    using T2 [THEN conjunct2, THEN conjunct1] unfolding c by simp
  have q2: "sp_query (build_select ''items'' (Some ''7'') ?sp2) =
     ''SELECT * FROM `items` WHERE id = ? ORDER BY id ASC''"
    using T2 [THEN conjunct2, THEN conjunct2, THEN conjunct2, THEN conjunct2, THEN conjunct2,
              THEN conjunct1]
    unfolding c w2 build_select_table
    by (simp add: sanitizeKeyword_def is_ident_char_def)
  have p2: "sp_params (build_select ''items'' (Some ''7'') ?sp2) = [Str ''7'']"
    using T2 [THEN conjunct2, THEN conjunct2, THEN conjunct1]
      T2 [THEN conjunct2, THEN conjunct2, THEN conjunct2, THEN conjunct1]
    unfolding c by simp
  have h2: "handleGet sample_JSON items_engine ''items'' (Some ''7'') ?sp2 =
     Response
       (Obj [(''success'', Bool True),
             (''result'', Obj [(''id'', Str ''7''), (''name'', Str ''x'')])])
       200"
    using T2 [THEN conjunct2, THEN conjunct2, THEN conjunct2, THEN conjunct2, THEN conjunct2,
              THEN conjunct2, THEN conjunct1]
    unfolding q2 p2 r by (simp add: items_row_def hydrateValue_def)
  from g q1 p1 same h2 show ?thesis
    by (intro conjI)
qed

text \<open>
  Claim C2 as stated fails: on a table whose only row has the id 7, the lookup of that id
  with \<open>?limit=1&page=2\<close> binds the offset 1, gets no row and answers not found, whereas
  the same lookup without the parameters returns the row.
\<close>

theorem id_lookup_counterexample:
  "handleGet sample_JSON items_engine ''items'' (Some ''7'') [(''limit'', ''1''), (''page'', ''2'')] =
     Response (Obj [(''success'', Bool False), (''error'', Str ''Not Found'')]) 404 \<and>
   handleGet sample_JSON items_engine ''items'' (Some ''7'') [] =
     Response
       (Obj [(''success'', Bool True),
             (''result'', Obj [(''id'', Str ''7''), (''name'', Str ''x'')])])
       200"
  by (simp add: handleGet_def select_eval items_engine_def items_row_def hydrateValue_def)

section \<open>The identifier returned by Create\<close>

text \<open>
  Claim C3, amended. A Create succeeds exactly when the payload is an object and the
  engine runs the INSERT. Its response identifier is then, on every table, the value of
  the payload's \<open>slug\<close> property when that value is truthy, and otherwise the row
  identifier the engine assigned: a payload without a \<open>slug\<close>, or with an empty, zero,
  false or null one, gets the engine's identifier, whatever its \<open>id\<close> property holds.
\<close>

theorem create_response_identifier:
  "((\<exists>b. handlePost J db t request_body = Response b 201) \<longleftrightarrow>
    (\<exists>data result. request_body = Inr data \<and> \<not> invalid_data data \<and>
       db_run db (post_query t data) (post_params J data) = Inr result)) \<and>
   (\<forall>data result. \<not> invalid_data data \<and>
      db_run db (post_query t data) (post_params J data) = Inr result \<longrightarrow>
      handlePost J db t (Inr data) =
        Response
          (Obj [(''success'', Bool True),
                (''message'', Str (t @ '' created successfully'')),
                (''id'',
                   (if truthy (get_prop data ''slug'') then get_prop data ''slug''
                    else Num (Fin (of_int (last_row_id result)))))])
          201) \<and>
   (\<forall>kvs s. map_of kvs ''slug'' = Some s \<longrightarrow> get_prop (Obj kvs) ''slug'' = s) \<and>
   (\<forall>kvs. map_of kvs ''slug'' = None \<longrightarrow> \<not> truthy (get_prop (Obj kvs) ''slug''))"
proof (intro conjI allI impI)
  show "(\<exists>b. handlePost J db t request_body = Response b 201) \<longleftrightarrow>
    (\<exists>data result. request_body = Inr data \<and> \<not> invalid_data data \<and>
       db_run db (post_query t data) (post_params J data) = Inr result)"
    by (rule handlePost_201)
  show "handlePost J db t (Inr data) =
        Response
          (Obj [(''success'', Bool True),
                (''message'', Str (t @ '' created successfully'')),
                (''id'',
                   (if truthy (get_prop data ''slug'') then get_prop data ''slug''
                    else Num (Fin (of_int (last_row_id result)))))])
          201"
    if "\<not> invalid_data data \<and>
      db_run db (post_query t data) (post_params J data) = Inr result" for data result
    using that handlePost_created by blast
  show "get_prop (Obj kvs) ''slug'' = s" if "map_of kvs ''slug'' = Some s" for kvs s
    using that by simp
  show "\<not> truthy (get_prop (Obj kvs) ''slug'')" if "map_of kvs ''slug'' = None" for kvs
    using that slug_not_inherited by simp
qed

theorem create_response_identifier_witness:
  "\<not> invalid_data (Obj [(''slug'', Str ''intro''), (''title'', Str ''Intro'')]) \<and>
   handlePost sample_JSON (answering_engine [] None \<lparr>changes = 1, last_row_id = 12\<rparr>)
     ''quizzes'' (Inr (Obj [(''slug'', Str ''intro''), (''title'', Str ''Intro'')])) =
     Response
       (Obj [(''success'', Bool True), (''message'', Str ''quizzes created successfully''),
             (''id'', Str ''intro'')])
       201 \<and>
   handlePost sample_JSON (answering_engine [] None \<lparr>changes = 1, last_row_id = 12\<rparr>)
     ''items'' (Inr (Obj [(''name'', Str ''x'')])) =
     Response
       (Obj [(''success'', Bool True), (''message'', Str ''items created successfully''),
             (''id'', Num (Fin 12))])
       201"
proof -
  let ?db = "answering_engine [] None \<lparr>changes = 1, last_row_id = 12\<rparr>"
  let ?quiz = "Obj [(''slug'', Str ''intro''), (''title'', Str ''Intro'')]"
  let ?item = "Obj [(''name'', Str ''x'')]"
  have v: "\<not> invalid_data ?quiz" "\<not> invalid_data ?item"
    by (simp_all add: invalid_data_def)
  have r: "db_run ?db q ps = Inr \<lparr>changes = 1, last_row_id = 12\<rparr>" for q ps
    by (simp add: answering_engine_def)
  note T = create_response_identifier [THEN conjunct2, THEN conjunct1, rule_format]
  have 1: "handlePost sample_JSON ?db ''quizzes'' (Inr ?quiz) =
     Response
       (Obj [(''success'', Bool True), (''message'', Str ''quizzes created successfully''),
             (''id'', Str ''intro'')])
       201"
    using T [of ?quiz ?db "''quizzes''" sample_JSON] v(1) r by simp
  have 2: "handlePost sample_JSON ?db ''items'' (Inr ?item) =
     Response
       (Obj [(''success'', Bool True), (''message'', Str ''items created successfully''),
             (''id'', Num (Fin 12))])
       201"
    using T [of ?item ?db "''items''" sample_JSON] v(2) r
    by (simp add: prototype_methods_def)
  from v(1) 1 2 show ?thesis
    by (intro conjI)
qed

text \<open>
  Claim C3 as stated fails on a table identified by \<open>id\<close>: a payload that carries its own
  \<open>id\<close> gets the engine's row identifier back, and a payload that also carries a \<open>slug\<close>
  gets the slug back, although \<open>id\<close> is the identifying column of the table.
\<close>

theorem create_response_identifier_counterexample:
  "idColumn_of ''items'' = ''id'' \<and>
   handlePost sample_JSON (answering_engine [] None \<lparr>changes = 1, last_row_id = 1\<rparr>)
     ''items'' (Inr (Obj [(''id'', Str ''a1''), (''name'', Str ''x'')])) =
     Response
       (Obj [(''success'', Bool True), (''message'', Str ''items created successfully''),
             (''id'', Num (Fin 1))])
       201 \<and>
   handlePost sample_JSON (answering_engine [] None \<lparr>changes = 1, last_row_id = 1\<rparr>)
     ''items'' (Inr (Obj [(''id'', Str ''a1''), (''slug'', Str ''s1'')])) =
     Response
       (Obj [(''success'', Bool True), (''message'', Str ''items created successfully''),
             (''id'', Str ''s1'')])
       201"
  by (simp add: handlePost_def invalid_data_def answering_engine_def idColumn_of_def
      prototype_methods_def)

section \<open>Coercion in Update and in Create\<close>

text \<open>
  Claim C4 at the payload \<open>{"a-b": 1}\<close>: the column is \<open>ab\<close>, which is not a key of the
  payload, so the value looked up is undefined. \<open>handlePost\<close> binds null for it;
  \<open>handleUpdate\<close>, which has no branch for undefined, binds undefined.
\<close>

theorem update_binds_undefined_where_create_binds_null:
  "update_columns (Obj [(''a-b'', Num (Fin 1))]) = [''ab''] \<and>
   post_columns (Obj [(''a-b'', Num (Fin 1))]) = [''ab''] \<and>
   update_params J (Obj [(''a-b'', Num (Fin 1))]) ''7'' = [Undefined, Str ''7''] \<and>
   post_params J (Obj [(''a-b'', Num (Fin 1))]) = [Null] \<and>
   update_coerce J Undefined = Undefined \<and>
   post_coerce J Undefined = Null"
  by (simp add: update_columns_def post_columns_def update_params_def post_params_def
      update_coerce_def post_coerce_def is_ident_char_def prototype_methods_def)

section \<open>Round trip through storage\<close>

text \<open>
  Claim C5. Writing a value with the coercion of \<open>handlePost\<close> and reading it back with
  \<open>hydrateValue\<close> gives the value again, for null, for a boolean, and for an array or an
  object that the platform serializes to a text which starts with the opening bracket or
  brace and which it parses back to the same value. The coercion of \<open>handleUpdate\<close> agrees
  with that of \<open>handlePost\<close> on these values.
\<close>

theorem storage_round_trip:
  "v = Null \<or> (\<exists>b. v = Bool b) \<or>
   ((\<exists>xs. v = Arr xs) \<or> (\<exists>kvs. v = Obj kvs)) \<and>
   parse J (stringify J v) = Some v \<and>
   (\<exists>rest. stringify J v = (if isArray v then CHR ''['' else CHR ''{'') # rest)
   \<longrightarrow> hydrateValue J (post_coerce J v) = v \<and> update_coerce J v = post_coerce J v"
proof
  assume a: "v = Null \<or> (\<exists>b. v = Bool b) \<or>
   ((\<exists>xs. v = Arr xs) \<or> (\<exists>kvs. v = Obj kvs)) \<and>
   parse J (stringify J v) = Some v \<and>
   (\<exists>rest. stringify J v = (if isArray v then CHR ''['' else CHR ''{'') # rest)"
  then consider (null) "v = Null" | (bool) b where "v = Bool b"
    | (structured) rest where "(\<exists>xs. v = Arr xs) \<or> (\<exists>kvs. v = Obj kvs)"
        "parse J (stringify J v) = Some v"
        "stringify J v = (if isArray v then CHR ''['' else CHR ''{'') # rest"
    by blast
  then show "hydrateValue J (post_coerce J v) = v \<and> update_coerce J v = post_coerce J v"
  proof cases
    case null
    then show ?thesis by (simp add: post_coerce_def update_coerce_def hydrateValue_def)
  next
    case bool
    then show ?thesis by (cases b) (simp_all add: post_coerce_def update_coerce_def hydrateValue_def)
  next
    case structured
    from structured(1) have c: "post_coerce J v = Str (stringify J v)"
      "update_coerce J v = Str (stringify J v)"
      by (auto simp: post_coerce_def update_coerce_def)
    have "hydrateValue J (Str (stringify J v)) = v"
      using structured(2,3) by (auto simp: hydrateValue_def split: if_splits)
    with c show ?thesis by simp
  qed
qed

theorem storage_round_trip_witness:
  \<open>parse sample_JSON (stringify sample_JSON (Arr [Str ''a'', Str ''b''])) =
     Some (Arr [Str ''a'', Str ''b'']) \<and>
   stringify sample_JSON (Arr [Str ''a'', Str ''b'']) = ''["a","b"]'' \<and>
   post_coerce sample_JSON (Arr [Str ''a'', Str ''b'']) = Str ''["a","b"]'' \<and>
   hydrateValue sample_JSON (post_coerce sample_JSON (Arr [Str ''a'', Str ''b''])) =
     Arr [Str ''a'', Str ''b''] \<and>
   hydrateValue sample_JSON (post_coerce sample_JSON (Obj [(''theme'', Str ''dark'')])) =
     Obj [(''theme'', Str ''dark'')] \<and>
   post_coerce sample_JSON (Bool True) = Num (Fin 1) \<and>
   hydrateValue sample_JSON (post_coerce sample_JSON (Bool True)) = Bool True \<and>
   hydrateValue sample_JSON (post_coerce sample_JSON (Bool False)) = Bool False \<and>
   hydrateValue sample_JSON (post_coerce sample_JSON Null) = Null\<close>
proof -
  have s: \<open>stringify sample_JSON (Arr [Str ''a'', Str ''b'']) = ''["a","b"]''\<close>
    \<open>stringify sample_JSON (Obj [(''theme'', Str ''dark'')]) = ''{"theme":"dark"}''\<close>
    by (simp_all add: sample_JSON_def)
  have p: \<open>parse sample_JSON ''["a","b"]'' = Some (Arr [Str ''a'', Str ''b''])\<close>
    \<open>parse sample_JSON ''{"theme":"dark"}'' = Some (Obj [(''theme'', Str ''dark'')])\<close>
    by (simp_all add: sample_JSON_def)
  have c: \<open>post_coerce sample_JSON (Arr [Str ''a'', Str ''b'']) = Str ''["a","b"]''\<close>
    "post_coerce sample_JSON (Bool True) = Num (Fin 1)"
    by (simp_all add: post_coerce_def s)
  have 1: "hydrateValue sample_JSON (post_coerce sample_JSON (Arr [Str ''a'', Str ''b''])) =
     Arr [Str ''a'', Str ''b'']"
    using storage_round_trip [of "Arr [Str ''a'', Str ''b'']" sample_JSON]
    by (simp add: s p)
  have 2: "hydrateValue sample_JSON (post_coerce sample_JSON (Obj [(''theme'', Str ''dark'')])) =
     Obj [(''theme'', Str ''dark'')]"
    using storage_round_trip [of "Obj [(''theme'', Str ''dark'')]" sample_JSON]
    by (simp add: s p)
  have 3: "hydrateValue sample_JSON (post_coerce sample_JSON (Bool True)) = Bool True"
    using storage_round_trip [of "Bool True" sample_JSON] by blast
  have 4: "hydrateValue sample_JSON (post_coerce sample_JSON (Bool False)) = Bool False"
    using storage_round_trip [of "Bool False" sample_JSON] by blast
  have 5: "hydrateValue sample_JSON (post_coerce sample_JSON Null) = Null"
    using storage_round_trip [of Null sample_JSON] by simp
  have ps: "parse sample_JSON (stringify sample_JSON (Arr [Str ''a'', Str ''b''])) =
     Some (Arr [Str ''a'', Str ''b''])"
    by (simp add: s p)
  from ps s(1) c(1) 1 2 c(2) 3 4 5 show ?thesis
    by (intro conjI)
qed

section \<open>Pagination arithmetic\<close>




section \<open>The count statement\<close>

text \<open>
  Claim C7. The count statement of a collection request has the WHERE clause of the main
  SELECT, and its parameters are the filter values in query-string order: the main
  statement binds the same list followed, when \<open>limit > 0\<close>, by the limit and the offset,
  and exactly the same list otherwise. \<open>handleGet\<close> hands this statement and these
  parameters to the engine.
\<close>

theorem count_statement_binds_filter_parameters:
  "(let p = build_select tableName rowId sp in
      sp_query p =
        ''SELECT * FROM '' @ sp_table p @ sp_whereClause p @ '' ORDER BY '' @
        sanitizeIdentifier (sort_by_of tableName sp) @ '' '' @ order_of sp @
        (if num_gt (limit_of sp) (Fin 0) then '' LIMIT ? OFFSET ?'' else []) \<and>
      countQuery_of p = ''SELECT COUNT(*) as total FROM '' @ sp_table p @ sp_whereClause p \<and>
      countParams_of p = where_values rowId sp \<and>
      (\<not> id_given rowId \<longrightarrow>
         countParams_of p = map (\<lambda>(key, value). Str value) (filters_of sp)) \<and>
      (num_gt (limit_of sp) (Fin 0) \<longrightarrow>
         sp_params p = countParams_of p @ [Num (limit_of sp), Num (sp_offset p)]) \<and>
      (\<not> num_gt (limit_of sp) (Fin 0) \<longrightarrow> sp_params p = countParams_of p) \<and>
      (\<forall>results. \<not> id_given rowId \<and> db_all db (sp_query p) (sp_params p) = Inr results \<longrightarrow>
         handleGet J db tableName rowId sp =
           (case db_first db (countQuery_of p) (where_values rowId sp) of
              Inl message \<Rightarrow> error_500 message
            | Inr first_row \<Rightarrow>
                Response
                  (Obj [(''success'', Bool True),
                        (''results'',
                           Arr (map (\<lambda>r. row_value (hydrateRow J (Some r))) results)),
                        (''pagination'',
                           pagination_of p (case first_row of None \<Rightarrow> Fin 0 | Some n \<Rightarrow> n))])
                  200)))"
  unfolding Let_def
proof (intro conjI impI allI)
  let ?p = "build_select tableName rowId sp"
  fix results
  assume "\<not> id_given rowId \<and> db_all db (sp_query ?p) (sp_params ?p) = Inr results"
  then show "handleGet J db tableName rowId sp =
           (case db_first db (countQuery_of ?p) (where_values rowId sp) of
              Inl message \<Rightarrow> error_500 message
            | Inr first_row \<Rightarrow>
                Response
                  (Obj [(''success'', Bool True),
                        (''results'',
                           Arr (map (\<lambda>r. row_value (hydrateRow J (Some r))) results)),
                        (''pagination'',
                           pagination_of ?p (case first_row of None \<Rightarrow> Fin 0 | Some n \<Rightarrow> n))])
                  200)"
    using handleGet_collection [of rowId db tableName sp results J]
    by (simp add: countParams_where_values)
next
  let ?p = "build_select tableName rowId sp"
  show "sp_query ?p =
        ''SELECT * FROM '' @ sp_table ?p @ sp_whereClause ?p @ '' ORDER BY '' @
        sanitizeIdentifier (sort_by_of tableName sp) @ '' '' @ order_of sp @
        (if num_gt (limit_of sp) (Fin 0) then '' LIMIT ? OFFSET ?'' else [])"
    by (simp add: build_select_query build_select_table build_select_whereClause)
  show "countQuery_of ?p = ''SELECT COUNT(*) as total FROM '' @ sp_table ?p @ sp_whereClause ?p"
    by (simp add: countQuery_of_def)
  show "countParams_of ?p = where_values rowId sp"
    by (rule countParams_where_values)
  show "countParams_of ?p = map (\<lambda>(key, value). Str value) (filters_of sp)"
    if "\<not> id_given rowId"
    using that by (cases rowId) (simp_all add: countParams_where_values where_values_def)
  show "sp_params ?p = countParams_of ?p @ [Num (limit_of sp), Num (sp_offset ?p)]"
    if "num_gt (limit_of sp) (Fin 0)"
    using that by (simp add: countParams_where_values build_select_params)
  show "sp_params ?p = countParams_of ?p" if "\<not> num_gt (limit_of sp) (Fin 0)"
    using that by (simp add: countParams_where_values build_select_params)
qed

theorem count_statement_binds_filter_parameters_witness:
  "countQuery_of (build_select ''items'' None
      [(''color'', ''red''), (''limit'', ''10''), (''page'', ''3''), (''size'', ''L'')]) =
     ''SELECT COUNT(*) as total FROM `items` WHERE color = ? AND size = ?'' \<and>
   countParams_of (build_select ''items'' None
      [(''color'', ''red''), (''limit'', ''10''), (''page'', ''3''), (''size'', ''L'')]) =
     [Str ''red'', Str ''L''] \<and>
   sp_query (build_select ''items'' None
      [(''color'', ''red''), (''limit'', ''10''), (''page'', ''3''), (''size'', ''L'')]) =
     ''SELECT * FROM `items` WHERE color = ? AND size = ? ORDER BY id ASC LIMIT ? OFFSET ?'' \<and>
   sp_params (build_select ''items'' None
      [(''color'', ''red''), (''limit'', ''10''), (''page'', ''3''), (''size'', ''L'')]) =
     [Str ''red'', Str ''L'', Num (Fin 10), Num (Fin 20)] \<and>
   handleGet sample_JSON
     (answering_engine [[(''id'', Num (Fin 21)), (''color'', Str ''red''), (''size'', Str ''L'')]]
        (Some (Fin 47)) \<lparr>changes = 0, last_row_id = 0\<rparr>)
     ''items'' None
     [(''color'', ''red''), (''limit'', ''10''), (''page'', ''3''), (''size'', ''L'')] =
     Response
       (Obj [(''success'', Bool True),
             (''results'',
                Arr [Obj [(''id'', Num (Fin 21)), (''color'', Str ''red''), (''size'', Str ''L'')]]),
             (''pagination'',
                Obj [(''total_items'', Num (Fin 47)), (''total_pages'', Num (Fin 5)),
                     (''current_page'', Num (Fin 3)), (''limit'', Num (Fin 10))])])
       200 \<and>
   countParams_of (build_select ''items'' None [(''color'', ''red'')]) = [Str ''red''] \<and>
   sp_params (build_select ''items'' None [(''color'', ''red'')]) = [Str ''red'']"
  using count_statement_binds_filter_parameters
          [of "''items''" None
              "[(''color'', ''red''), (''limit'', ''10''), (''page'', ''3''), (''size'', ''L'')]"
              "answering_engine
                 [[(''id'', Num (Fin 21)), (''color'', Str ''red''), (''size'', Str ''L'')]]
                 (Some (Fin 47)) \<lparr>changes = 0, last_row_id = 0\<rparr>"
              sample_JSON]
    count_statement_binds_filter_parameters
          [of "''items''" None "[(''color'', ''red'')]"
              "answering_engine [] None \<lparr>changes = 0, last_row_id = 0\<rparr>" sample_JSON]
  by (simp add: select_eval answering_engine_def pagination_of_def num_or_def hydrateValue_def
      error_500_def ceiling_47_10)

section \<open>Hydration on read\<close>

text \<open>
  Claim C8. \<open>hydrateValue\<close> returns null and undefined unchanged, turns the numbers 0 and 1
  into \<open>false\<close> and \<open>true\<close> whatever the column, parses a string that starts with an opening
  brace or bracket as JSON and keeps the string when parsing fails, and returns every
  other value unchanged. \<open>hydrateRow\<close> keeps the keys of a row and hydrates each value,
  and \<open>handleGet\<close> returns the hydrated form of the row of an id lookup and of every row
  of a collection.
\<close>

theorem hydration_of_stored_values:
  "hydrateValue J Null = Null \<and>
   hydrateValue J Undefined = Undefined \<and>
   hydrateValue J (Num (Fin 0)) = Bool False \<and>
   hydrateValue J (Num (Fin 1)) = Bool True \<and>
   (\<forall>c s. c = CHR ''{'' \<or> c = CHR ''['' \<longrightarrow>
      hydrateValue J (Str (c # s)) =
        (case parse J (c # s) of Some v \<Rightarrow> v | None \<Rightarrow> Str (c # s))) \<and>
   (\<forall>v. v \<noteq> Num (Fin 0) \<and> v \<noteq> Num (Fin 1) \<and>
        (\<forall>c s. v = Str (c # s) \<longrightarrow> c \<noteq> CHR ''{'' \<and> c \<noteq> CHR ''['') \<longrightarrow>
      hydrateValue J v = v) \<and>
   (\<forall>r. hydrateRow J (Some r) = Some (map (\<lambda>(key, value). (key, hydrateValue J value)) r)) \<and>
   (\<forall>r r'. hydrateRow J (Some r) = Some r' \<longrightarrow>
      map fst r' = map fst r \<and> map snd r' = map (hydrateValue J) (map snd r)) \<and>
   (\<forall>r rest. id_given rowId \<and>
      db_all db (sp_query (build_select t rowId sp)) (sp_params (build_select t rowId sp)) =
        Inr (r # rest) \<longrightarrow>
      handleGet J db t rowId sp =
        Response
          (Obj [(''success'', Bool True),
                (''result'', Obj (map (\<lambda>(key, value). (key, hydrateValue J value)) r))])
          200) \<and>
   (\<forall>results first_row. \<not> id_given rowId \<and>
      db_all db (sp_query (build_select t rowId sp)) (sp_params (build_select t rowId sp)) =
        Inr results \<and>
      db_first db (countQuery_of (build_select t rowId sp))
        (countParams_of (build_select t rowId sp)) = Inr first_row \<longrightarrow>
      handleGet J db t rowId sp =
        Response
          (Obj [(''success'', Bool True),
                (''results'',
                   Arr (map (\<lambda>r. Obj (map (\<lambda>(key, value). (key, hydrateValue J value)) r))
                          results)),
                (''pagination'',
                   pagination_of (build_select t rowId sp)
                     (case first_row of None \<Rightarrow> Fin 0 | Some n \<Rightarrow> n))])
          200)"
proof (intro conjI allI impI)
  show "hydrateValue J Null = Null" "hydrateValue J Undefined = Undefined"
    "hydrateValue J (Num (Fin 0)) = Bool False" "hydrateValue J (Num (Fin 1)) = Bool True"
    by (simp_all add: hydrateValue_def)
  show "hydrateValue J (Str (c # s)) =
        (case parse J (c # s) of Some v \<Rightarrow> v | None \<Rightarrow> Str (c # s))"
    if "c = CHR ''{'' \<or> c = CHR ''[''" for c s
    using that by (rule hydrateValue_string)
  show "hydrateValue J v = v"
    if "v \<noteq> Num (Fin 0) \<and> v \<noteq> Num (Fin 1) \<and>
        (\<forall>c s. v = Str (c # s) \<longrightarrow> c \<noteq> CHR ''{'' \<and> c \<noteq> CHR ''['')" for v
    using that hydrateValue_other by blast
  show "hydrateRow J (Some r) = Some (map (\<lambda>(key, value). (key, hydrateValue J value)) r)" for r
    by simp
  show "map fst r' = map fst r" if "hydrateRow J (Some r) = Some r'" for r r'
    using that by (auto simp: split_beta)
  show "map snd r' = map (hydrateValue J) (map snd r)" if "hydrateRow J (Some r) = Some r'" for r r'
    using that by (auto simp: split_beta)
  show "handleGet J db t rowId sp =
        Response
          (Obj [(''success'', Bool True),
                (''result'', Obj (map (\<lambda>(key, value). (key, hydrateValue J value)) r))])
          200"
    if "id_given rowId \<and>
      db_all db (sp_query (build_select t rowId sp)) (sp_params (build_select t rowId sp)) =
        Inr (r # rest)" for r rest
    using that by (simp add: handleGet_id)
  show "handleGet J db t rowId sp =
        Response
          (Obj [(''success'', Bool True),
                (''results'',
                   Arr (map (\<lambda>r. Obj (map (\<lambda>(key, value). (key, hydrateValue J value)) r))
                          results)),
                (''pagination'',
                   pagination_of (build_select t rowId sp)
                     (case first_row of None \<Rightarrow> Fin 0 | Some n \<Rightarrow> n))])
          200"
    if "\<not> id_given rowId \<and>
      db_all db (sp_query (build_select t rowId sp)) (sp_params (build_select t rowId sp)) =
        Inr results \<and>
      db_first db (countQuery_of (build_select t rowId sp))
        (countParams_of (build_select t rowId sp)) = Inr first_row" for results first_row
    using that handleGet_collection [of rowId db t sp results J] by simp
qed

theorem hydration_of_stored_values_witness:
  \<open>hydrateValue sample_JSON (Str ''["a","b"]'') = Arr [Str ''a'', Str ''b''] \<and>
   hydrateValue sample_JSON (Str ''{oops'') = Str ''{oops'' \<and>
   hydrateValue sample_JSON (Str ''x'') = Str ''x'' \<and>
   hydrateValue sample_JSON (Num (Fin 5)) = Num (Fin 5) \<and>
   handleGet sample_JSON
     (answering_engine
        [[(''id'', Num (Fin 5)), (''active'', Num (Fin 1)), (''stock'', Num (Fin 0)),
          (''tags'', Str ''["a","b"]''), (''note'', Str ''{oops''), (''gone'', Null)]]
        (Some (Fin 1)) \<lparr>changes = 0, last_row_id = 0\<rparr>)
     ''items'' (Some ''5'') [] =
     Response
       (Obj [(''success'', Bool True),
             (''result'',
                Obj [(''id'', Num (Fin 5)), (''active'', Bool True), (''stock'', Bool False),
                     (''tags'', Arr [Str ''a'', Str ''b'']), (''note'', Str ''{oops''),
                     (''gone'', Null)])])
       200 \<and>
   handleGet sample_JSON
     (answering_engine
        [[(''id'', Num (Fin 5)), (''active'', Num (Fin 1)), (''stock'', Num (Fin 0)),
          (''tags'', Str ''["a","b"]''), (''note'', Str ''{oops''), (''gone'', Null)]]
        (Some (Fin 1)) \<lparr>changes = 0, last_row_id = 0\<rparr>)
     ''items'' None [] =
     Response
       (Obj [(''success'', Bool True),
             (''results'',
                Arr [Obj [(''id'', Num (Fin 5)), (''active'', Bool True), (''stock'', Bool False),
                          (''tags'', Arr [Str ''a'', Str ''b'']), (''note'', Str ''{oops''),
                          (''gone'', Null)]]),
             (''pagination'',
                Obj [(''total_items'', Num (Fin 1)), (''total_pages'', Num (Fin 1)),
                     (''current_page'', Num (Fin 1)), (''limit'', Num (Fin 1))])])
       200\<close>
proof -
  let ?row = \<open>[(''id'', Num (Fin 5)), (''active'', Num (Fin 1)), (''stock'', Num (Fin 0)),
          (''tags'', Str ''["a","b"]''), (''note'', Str ''{oops''), (''gone'', Null)]\<close>
  let ?db = "answering_engine [?row] (Some (Fin 1)) \<lparr>changes = 0, last_row_id = 0\<rparr>"
  note T1 = hydration_of_stored_values [of sample_JSON "Some ''5''" ?db "''items''" "[]"]
  note T2 = hydration_of_stored_values [of sample_JSON None ?db "''items''" "[]"]
  have p: \<open>parse sample_JSON ''["a","b"]'' = Some (Arr [Str ''a'', Str ''b''])\<close>
    "parse sample_JSON ''{oops'' = None"
    by (simp_all add: sample_JSON_def)
  have v1: \<open>hydrateValue sample_JSON (Str ''["a","b"]'') = Arr [Str ''a'', Str ''b'']\<close>
    using T1 [THEN conjunct2, THEN conjunct2, THEN conjunct2, THEN conjunct2, THEN conjunct1,
              rule_format, of \<open>CHR ''[''\<close> \<open>''"a","b"]''\<close>] p
    by simp
  have v2: "hydrateValue sample_JSON (Str ''{oops'') = Str ''{oops''"
    using T1 [THEN conjunct2, THEN conjunct2, THEN conjunct2, THEN conjunct2, THEN conjunct1,
              rule_format, of "CHR ''{''" "''oops''"] p
    by simp
  note other = T1 [THEN conjunct2, THEN conjunct2, THEN conjunct2, THEN conjunct2,
              THEN conjunct2, THEN conjunct1, rule_format]
  have v3: "hydrateValue sample_JSON (Str ''x'') = Str ''x''"
    by (rule other) simp
  have v4: "hydrateValue sample_JSON (Num (Fin 5)) = Num (Fin 5)"
    by (rule other) simp
  have v5: "hydrateValue sample_JSON Null = Null"
    "hydrateValue sample_JSON (Num (Fin 0)) = Bool False"
    "hydrateValue sample_JSON (Num (Fin 1)) = Bool True"
    using T1 by simp_all
  have a: "db_all ?db q ps = Inr [?row]" "db_first ?db q ps = Inr (Some (Fin 1))" for q ps
    by (simp_all add: answering_engine_def)
  have g1: "handleGet sample_JSON ?db ''items'' (Some ''5'') [] =
     Response
       (Obj [(''success'', Bool True),
             (''result'',
                Obj [(''id'', Num (Fin 5)), (''active'', Bool True), (''stock'', Bool False),
                     (''tags'', Arr [Str ''a'', Str ''b'']), (''note'', Str ''{oops''),
                     (''gone'', Null)])])
       200"
    using T1 [THEN conjunct2, THEN conjunct2, THEN conjunct2, THEN conjunct2,
              THEN conjunct2, THEN conjunct2, THEN conjunct2, THEN conjunct2, THEN conjunct1,
              rule_format, of ?row "[]"]
    unfolding a by (simp add: v1 v2 v4 v5)
  have pg: "pagination_of (build_select ''items'' None []) (Fin 1) =
      Obj [(''total_items'', Num (Fin 1)), (''total_pages'', Num (Fin 1)),
           (''current_page'', Num (Fin 1)), (''limit'', Num (Fin 1))]"
    by (simp add: pagination_of_def build_select_limit build_select_page limit_of_def
        page_param_of_def parse_eval num_or_def)
  have g2: "handleGet sample_JSON ?db ''items'' None [] =
     Response
       (Obj [(''success'', Bool True),
             (''results'',
                Arr [Obj [(''id'', Num (Fin 5)), (''active'', Bool True), (''stock'', Bool False),
                          (''tags'', Arr [Str ''a'', Str ''b'']), (''note'', Str ''{oops''),
                          (''gone'', Null)]]),
             (''pagination'',
                Obj [(''total_items'', Num (Fin 1)), (''total_pages'', Num (Fin 1)),
                     (''current_page'', Num (Fin 1)), (''limit'', Num (Fin 1))])])
       200"
    using T2 [THEN conjunct2, THEN conjunct2, THEN conjunct2, THEN conjunct2,
              THEN conjunct2, THEN conjunct2, THEN conjunct2, THEN conjunct2, THEN conjunct2,
              rule_format, of "[?row]" "Some (Fin 1)"]
    unfolding a by (simp add: v1 v2 v4 v5 pg)
  from v1 v2 v3 v4 g1 g2 show ?thesis
    by (intro conjI)
qed

section \<open>Outcomes of Delete\<close>

text \<open>
  Claim C9. \<open>handleDelete\<close> acknowledges success exactly when the engine reports at least
  one affected row; with zero affected rows it answers 404 "Record not found"; and it
  answers 500, carrying the engine's message, exactly when the engine raises an error.
\<close>

theorem delete_outcomes:
  "(handleDelete db t rowId =
      Response (Obj [(''success'', Bool True),
                     (''message'', Str ''Resource deleted successfully'')]) 200
    \<longleftrightarrow> (\<exists>m. db_run db (delete_query t) [Str rowId] = Inr m \<and> 1 \<le> changes m)) \<and>
   (\<forall>m. db_run db (delete_query t) [Str rowId] = Inr m \<and> changes m = 0 \<longrightarrow>
      handleDelete db t rowId = Response (Obj [(''error'', Str ''Record not found'')]) 404) \<and>
   ((\<exists>body. handleDelete db t rowId = Response body 500)
    \<longleftrightarrow> (\<exists>message. db_run db (delete_query t) [Str rowId] = Inl message)) \<and>
   (\<forall>message. db_run db (delete_query t) [Str rowId] = Inl message \<longrightarrow>
      handleDelete db t rowId =
        Response (Obj [(''success'', Bool False), (''error'', Str message)]) 500) \<and>
   delete_query t =
     ''DELETE FROM `'' @ sanitizeIdentifier t @ ''` WHERE '' @ idColumn_of t @ '' = ?''"
proof (intro conjI allI impI)
  show "(handleDelete db t rowId =
      Response (Obj [(''success'', Bool True),
                     (''message'', Str ''Resource deleted successfully'')]) 200)
    \<longleftrightarrow> (\<exists>m. db_run db (delete_query t) [Str rowId] = Inr m \<and> 1 \<le> changes m)"
    by (cases "db_run db (delete_query t) [Str rowId]")
       (auto simp: handleDelete_def error_500_def)
  show "handleDelete db t rowId = Response (Obj [(''error'', Str ''Record not found'')]) 404"
    if "db_run db (delete_query t) [Str rowId] = Inr m \<and> changes m = 0" for m
    using that by (simp add: handleDelete_def)
  show "(\<exists>body. handleDelete db t rowId = Response body 500)
    \<longleftrightarrow> (\<exists>message. db_run db (delete_query t) [Str rowId] = Inl message)"
    by (cases "db_run db (delete_query t) [Str rowId]")
       (auto simp: handleDelete_def error_500_def)
  show "handleDelete db t rowId =
        Response (Obj [(''success'', Bool False), (''error'', Str message)]) 500"
    if "db_run db (delete_query t) [Str rowId] = Inl message" for message
    using that by (simp add: handleDelete_def error_500_def)
  show "delete_query t =
     ''DELETE FROM `'' @ sanitizeIdentifier t @ ''` WHERE '' @ idColumn_of t @ '' = ?''"
    by (simp add: delete_query_def sanitizeKeyword_def)
qed

theorem delete_outcomes_witness:
  "db_run (answering_engine [] None \<lparr>changes = 0, last_row_id = 0\<rparr>) (delete_query ''items'')
     [Str ''999''] = Inr \<lparr>changes = 0, last_row_id = 0\<rparr> \<and>
   handleDelete (answering_engine [] None \<lparr>changes = 0, last_row_id = 0\<rparr>) ''items'' ''999'' =
     Response (Obj [(''error'', Str ''Record not found'')]) 404 \<and>
   handleDelete (answering_engine [] None \<lparr>changes = 1, last_row_id = 0\<rparr>) ''items'' ''7'' =
     Response (Obj [(''success'', Bool True),
                    (''message'', Str ''Resource deleted successfully'')]) 200 \<and>
   handleDelete (failing_engine ''no such table: items'') ''items'' ''7'' =
     Response (Obj [(''success'', Bool False), (''error'', Str ''no such table: items'')]) 500"
proof -
  let ?zero = "answering_engine [] None \<lparr>changes = 0, last_row_id = 0\<rparr>"
  let ?one = "answering_engine [] None \<lparr>changes = 1, last_row_id = 0\<rparr>"
  let ?bad = "failing_engine ''no such table: items''"
  have z: "db_run ?zero (delete_query ''items'') [Str ''999''] = Inr \<lparr>changes = 0, last_row_id = 0\<rparr>"
    by (simp add: answering_engine_def)
  have o: "db_run ?one (delete_query ''items'') [Str ''7''] = Inr \<lparr>changes = 1, last_row_id = 0\<rparr>"
    by (simp add: answering_engine_def)
  have b: "db_run ?bad (delete_query ''items'') [Str ''7''] = Inl ''no such table: items''"
    by (simp add: failing_engine_def)
  have "handleDelete ?zero ''items'' ''999'' =
     Response (Obj [(''error'', Str ''Record not found'')]) 404"
    using delete_outcomes [of ?zero "''items''" "''999''", THEN conjunct2, THEN conjunct1] z
    by simp
  moreover have "handleDelete ?one ''items'' ''7'' =
     Response (Obj [(''success'', Bool True),
                    (''message'', Str ''Resource deleted successfully'')]) 200"
    using delete_outcomes [of ?one "''items''" "''7''", THEN conjunct1] o
    by simp
  moreover have "handleDelete ?bad ''items'' ''7'' =
     Response (Obj [(''success'', Bool False), (''error'', Str ''no such table: items'')]) 500"
    using delete_outcomes [of ?bad "''items''" "''7''", THEN conjunct2, THEN conjunct2,
        THEN conjunct2, THEN conjunct1] b
    by simp
  ultimately show ?thesis
    using z by (intro conjI)
qed

section \<open>Create looks values up under the sanitized key\<close>

text \<open>
  Claim C10, amended. For a Create payload (an object) and the key at any position, the
  column at that position is the sanitized key, and the parameter bound at that position
  is the coercion of the value found under the sanitized key. When the key has a
  character outside \<open>[A-Za-z0-9_]\<close>, the parameter does not depend on the key's own value;
  it is null when the sanitized key is neither a key of the payload nor a property
  inherited from \<open>Object.prototype\<close>. The INSERT is issued with the sanitized columns.
\<close>

theorem create_looks_up_sanitized_key:
  "i < length kvs \<longrightarrow>
   (let data = Obj kvs; key = fst (kvs ! i); col = sanitizeIdentifier key in
      post_columns data ! i = col \<and>
      length (post_params J data) = length kvs \<and>
      post_params J data ! i = post_coerce J (get_prop data col) \<and>
      (col \<noteq> key \<longrightarrow>
         (\<forall>v. post_params J (Obj (kvs[i := (key, v)])) ! i = post_params J data ! i)) \<and>
      (map_of kvs col = None \<and> col \<noteq> ''__proto__'' \<and> col \<notin> set prototype_methods \<longrightarrow>
         post_params J data ! i = Null) \<and>
      post_query t data =
        ''INSERT INTO `'' @ sanitizeIdentifier t @ ''` ('' @
        join '', '' (map (\<lambda>(key, value). sanitizeIdentifier key) kvs) @
        '') VALUES ('' @ join '', '' (map (\<lambda>_. ''?'') kvs) @ '')'' \<and>
      handlePost J db t (Inr data) =
        (case db_run db (post_query t data) (post_params J data) of
           Inl message \<Rightarrow> post_catch message
         | Inr result \<Rightarrow>
             Response
               (Obj [(''success'', Bool True),
                     (''message'', Str (t @ '' created successfully'')),
                     (''id'',
                        (if truthy (get_prop data ''slug'') then get_prop data ''slug''
                         else Num (Fin (of_int (last_row_id result)))))])
               201))"
proof
  assume i: "i < length kvs"
  let ?data = "Obj kvs" and ?key = "fst (kvs ! i)"
  let ?col = "sanitizeIdentifier ?key"
  have c: "post_columns ?data ! i = ?col"
    using i by (simp add: post_columns_def)
  have l: "length (post_params J ?data) = length kvs"
    by (simp add: post_params_def post_columns_def)
  have p: "post_params J ?data ! i = post_coerce J (get_prop ?data ?col)"
    using i by (simp add: post_params_def post_columns_def del: get_prop.simps)
  have d: "post_params J (Obj (kvs[i := (?key, v)])) ! i = post_params J ?data ! i"
    if "?col \<noteq> ?key" for v
  proof -
    have "post_params J (Obj (kvs[i := (?key, v)])) ! i =
          post_coerce J (get_prop (Obj (kvs[i := (?key, v)])) ?col)"
      using i by (simp add: post_params_def post_columns_def map_update del: get_prop.simps)
    also have "\<dots> = post_coerce J (get_prop ?data ?col)"
      using get_prop_update_other [OF i refl that, of v] by simp
    finally show ?thesis using p by simp
  qed
  have n: "post_params J ?data ! i = Null"
    if "map_of kvs ?col = None \<and> ?col \<noteq> ''__proto__'' \<and> ?col \<notin> set prototype_methods"
    using that p by (simp add: post_coerce_def)
  have m: "map (\<lambda>(key, value). sanitizeIdentifier key) kvs = map sanitizeIdentifier (map fst kvs)"
    by (simp add: split_beta)
  have q: "post_query t ?data =
        ''INSERT INTO `'' @ sanitizeIdentifier t @ ''` ('' @
        join '', '' (map (\<lambda>(key, value). sanitizeIdentifier key) kvs) @
        '') VALUES ('' @ join '', '' (map (\<lambda>_. ''?'') kvs) @ '')''"
    unfolding m by (simp add: post_query_def post_columns_def sanitizeKeyword_def comp_def)
  have h: "handlePost J db t (Inr ?data) =
        (case db_run db (post_query t ?data) (post_params J ?data) of
           Inl message \<Rightarrow> post_catch message
         | Inr result \<Rightarrow>
             Response
               (Obj [(''success'', Bool True),
                     (''message'', Str (t @ '' created successfully'')),
                     (''id'',
                        (if truthy (get_prop ?data ''slug'') then get_prop ?data ''slug''
                         else Num (Fin (of_int (last_row_id result)))))])
               201)"
    by (rule handlePost_runs) (simp add: invalid_data_def)
  show "let data = Obj kvs; key = fst (kvs ! i); col = sanitizeIdentifier key in
      post_columns data ! i = col \<and>
      length (post_params J data) = length kvs \<and>
      post_params J data ! i = post_coerce J (get_prop data col) \<and>
      (col \<noteq> key \<longrightarrow>
         (\<forall>v. post_params J (Obj (kvs[i := (key, v)])) ! i = post_params J data ! i)) \<and>
      (map_of kvs col = None \<and> col \<noteq> ''__proto__'' \<and> col \<notin> set prototype_methods \<longrightarrow>
         post_params J data ! i = Null) \<and>
      post_query t data =
        ''INSERT INTO `'' @ sanitizeIdentifier t @ ''` ('' @
        join '', '' (map (\<lambda>(key, value). sanitizeIdentifier key) kvs) @
        '') VALUES ('' @ join '', '' (map (\<lambda>_. ''?'') kvs) @ '')'' \<and>
      handlePost J db t (Inr data) =
        (case db_run db (post_query t data) (post_params J data) of
           Inl message \<Rightarrow> post_catch message
         | Inr result \<Rightarrow>
             Response
               (Obj [(''success'', Bool True),
                     (''message'', Str (t @ '' created successfully'')),
                     (''id'',
                        (if truthy (get_prop data ''slug'') then get_prop data ''slug''
                         else Num (Fin (of_int (last_row_id result)))))])
               201)"
    unfolding Let_def using c l p d n q h by (intro conjI impI allI)
qed

theorem create_looks_up_sanitized_key_witness:
  "(0 :: nat) < length [(''first name'', Str ''Ada''), (''age'', Num (Fin 36))] \<and>
   post_columns (Obj [(''first name'', Str ''Ada''), (''age'', Num (Fin 36))]) ! 0 =
     ''firstname'' \<and>
   post_params sample_JSON (Obj [(''first name'', Str ''Ada''), (''age'', Num (Fin 36))]) ! 0 =
     Null \<and>
   post_params sample_JSON (Obj [(''first name'', Str ''Grace''), (''age'', Num (Fin 36))]) ! 0 =
     Null \<and>
   post_query ''people'' (Obj [(''first name'', Str ''Ada''), (''age'', Num (Fin 36))]) =
     ''INSERT INTO `people` (firstname, age) VALUES (?, ?)'' \<and>
   handlePost sample_JSON (answering_engine [] None \<lparr>changes = 1, last_row_id = 3\<rparr>)
     ''people'' (Inr (Obj [(''first name'', Str ''Ada''), (''age'', Num (Fin 36))])) =
     Response
       (Obj [(''success'', Bool True), (''message'', Str ''people created successfully''),
             (''id'', Num (Fin 3))])
       201"
proof -
  let ?kvs = "[(''first name'', Str ''Ada''), (''age'', Num (Fin 36))]"
  let ?db = "answering_engine [] None \<lparr>changes = 1, last_row_id = 3\<rparr>"
  have i: "(0 :: nat) < length ?kvs"
    by simp
  have r: "db_run ?db q ps = Inr \<lparr>changes = 1, last_row_id = 3\<rparr>" for q ps
    by (simp add: answering_engine_def)
  note T = create_looks_up_sanitized_key
      [of 0 ?kvs sample_JSON "''people''" ?db, rule_format, OF i, unfolded Let_def]
  have c: "post_columns (Obj ?kvs) ! 0 = ''firstname''"
    using T [THEN conjunct1] by (simp add: is_ident_char_def)
  have n: "post_params sample_JSON (Obj ?kvs) ! 0 = Null"
    using T [THEN conjunct2, THEN conjunct2, THEN conjunct2, THEN conjunct2, THEN conjunct1]
    by (simp add: is_ident_char_def prototype_methods_def)
  have d: "post_params sample_JSON
             (Obj [(''first name'', Str ''Grace''), (''age'', Num (Fin 36))]) ! 0 = Null"
    using T [THEN conjunct2, THEN conjunct2, THEN conjunct2, THEN conjunct1, rule_format,
             of "Str ''Grace''"] n
    by (simp add: is_ident_char_def)
  have q: "post_query ''people'' (Obj ?kvs) =
     ''INSERT INTO `people` (firstname, age) VALUES (?, ?)''"
    using T [THEN conjunct2, THEN conjunct2, THEN conjunct2, THEN conjunct2, THEN conjunct2,
             THEN conjunct1]
    by (simp add: is_ident_char_def)
  have h: "handlePost sample_JSON ?db ''people'' (Inr (Obj ?kvs)) =
     Response
       (Obj [(''success'', Bool True), (''message'', Str ''people created successfully''),
             (''id'', Num (Fin 3))])
       201"
    using T [THEN conjunct2, THEN conjunct2, THEN conjunct2, THEN conjunct2, THEN conjunct2,
             THEN conjunct2]
    unfolding r by (simp add: prototype_methods_def)
  from i c n d q h show ?thesis
    by (intro conjI)
qed

text \<open>
  Claim C10 as stated fails when the sanitized key is itself a key of the payload, or a
  property every object inherits: for \<open>{"a-b": 1, "ab": 2}\<close> the column of \<open>a-b\<close> is bound to
  2, and for \<open>{"constructor!": 1}\<close> it is bound to the inherited constructor function;
  neither is null.
\<close>

theorem create_looks_up_sanitized_key_counterexample:
  "post_columns (Obj [(''a-b'', Num (Fin 1)), (''ab'', Num (Fin 2))]) = [''ab'', ''ab''] \<and>
   post_params sample_JSON (Obj [(''a-b'', Num (Fin 1)), (''ab'', Num (Fin 2))]) =
     [Num (Fin 2), Num (Fin 2)] \<and>
   post_columns (Obj [(''constructor!'', Num (Fin 1))]) = [''constructor''] \<and>
   post_params sample_JSON (Obj [(''constructor!'', Num (Fin 1))]) = [Function ''constructor'']"
  by (simp add: post_columns_def post_params_def post_coerce_def is_ident_char_def
      prototype_methods_def)

end
